theory Spec2Isabelle
  imports Main
begin

text \<open>
  The dashboard page of the employee archiving frontend (the employee form with its
  documents, and the searchable employee select) and the proxy route that forwards
  \<open>/api\<close> requests to the backend, as functions on their state, with the properties
  the specification claims of them.
\<close>

section \<open>JavaScript primitives the page relies on\<close>

text \<open>
  Strings are byte lists (UTF-8). Substring search on well-formed UTF-8 agrees with
  substring search on the UTF-16 code units that JavaScript compares, so the two
  Arabic literals of the source are written as their UTF-8 bytes.
  Identifiers (\<open>system_id\<close>) are integers; \<open>toString\<close> is
  \<open>Number.prototype.toString\<close> on an integer and \<open>parseInt\<close> is
  \<open>parseInt(s, 10)\<close>, with \<open>None\<close> for \<open>NaN\<close>. Only the ASCII white space
  characters are stripped, and numbers stay exact (the source's doubles are exact below
  \<open>2^53\<close>).
\<close>

definition digit_char :: "nat \<Rightarrow> char" where
  "digit_char d = ''0123456789'' ! d"

fun string_of_nat :: "nat \<Rightarrow> string" where
  "string_of_nat n =
     (if n < 10 then [digit_char n]
      else string_of_nat (n div 10) @ [digit_char (n mod 10)])"

declare string_of_nat.simps [simp del]

definition toString :: "int \<Rightarrow> string" where
  "toString n =
     (if n < 0 then CHR ''-'' # string_of_nat (nat (- n)) else string_of_nat (nat n))"

definition isWhiteSpace :: "char \<Rightarrow> bool" where
  "isWhiteSpace c = (c \<in> set [CHR 0x09, CHR 0x0A, CHR 0x0B, CHR 0x0C, CHR 0x0D, CHR 0x20])"

definition isDigit :: "char \<Rightarrow> bool" where
  "isDigit c = (c \<in> set ''0123456789'')"

definition digit_value :: "char \<Rightarrow> nat" where
  "digit_value c = length (takeWhile (\<lambda>d. d \<noteq> c) ''0123456789'')"

fun digits_to_nat :: "nat \<Rightarrow> string \<Rightarrow> nat" where
  "digits_to_nat acc [] = acc"
| "digits_to_nat acc (c # cs) = digits_to_nat (acc * 10 + digit_value c) cs"

definition parseInt :: "string \<Rightarrow> int option" where
  "parseInt inputString =
     (let S = dropWhile isWhiteSpace inputString;
          neg = (case S of c # _ \<Rightarrow> c = CHR ''-'' | [] \<Rightarrow> False);
          S' = (case S of c # cs \<Rightarrow> if c = CHR ''+'' \<or> c = CHR ''-'' then cs else S
                | [] \<Rightarrow> S);
          Z = takeWhile isDigit S'
      in if Z = [] then None
         else Some ((if neg then - 1 else 1) * int (digits_to_nat 0 Z)))"

text \<open>\<open>String.prototype.includes\<close>: \<open>str_includes s sub\<close> is \<open>s.includes(sub)\<close>.\<close>

fun starts_with :: "string \<Rightarrow> string \<Rightarrow> bool" where
  "starts_with s [] = True"
| "starts_with [] (c # sub) = False"
| "starts_with (d # s) (c # sub) = (d = c \<and> starts_with s sub)"

fun str_includes :: "string \<Rightarrow> string \<Rightarrow> bool" where
  "str_includes [] sub = (sub = [])"
| "str_includes (d # s) sub = (starts_with (d # s) sub \<or> str_includes s sub)"

text \<open>
  \<open>toLowerCase\<close> on the ASCII letters. No character outside ASCII lower-cases to one
  of the letters of \<open>other\<close>, the only word the page looks for in a lower-cased string.
\<close>

definition lower_char :: "char \<Rightarrow> char" where
  "lower_char c =
     (if c \<in> set ''ABCDEFGHIJKLMNOPQRSTUVWXYZ''
      then ''abcdefghijklmnopqrstuvwxyz'' ! length (takeWhile (\<lambda>d. d \<noteq> c) ''ABCDEFGHIJKLMNOPQRSTUVWXYZ'')
      else c)"

definition toLowerCase :: "string \<Rightarrow> string" where
  "toLowerCase s = map lower_char s"

text \<open>A value that is a string, a number or \<open>undefined\<close>, with JavaScript's truthiness.\<close>

datatype js_id = Undefined | Str string | Num int

fun truthy :: "js_id \<Rightarrow> bool" where
  "truthy Undefined = False"
| "truthy (Str s) = (s \<noteq> [])"
| "truthy (Num n) = (n \<noteq> 0)"

text \<open>\<open>x || ''\<close> for an optional string.\<close>

fun or_empty :: "string option \<Rightarrow> string" where
  "or_empty None = []"
| "or_empty (Some s) = s"

section \<open>The employee form: data\<close>

text \<open>
  The records follow the type definitions at the head of the page. A field name that
  two types share, or that is a keyword here, carries a prefix: \<open>st_\<close> for
  \<open>Status\<close>, \<open>ex_\<close> for \<open>ExistingDocument\<close>, \<open>d_\<close> for the fetched
  \<open>HrEmployeeDetails\<close>, \<open>fd_section\<close> for the form's \<open>section\<close>, \<open>nd_file\<close> for
  a new document's \<open>file\<close>.
\<close>

record Status =
  st_system_id :: int
  name_english :: string
  name_arabic :: string

record StatusesResponse =
  employee_status :: "Status list"

record DocType =
  system_id :: int
  name :: string

record DocumentTypesResponse =
  all_types :: "DocType list"
  types_with_expiry :: "DocType list"

record ExistingDocument =
  ex_system_id :: int
  docnumber :: int
  ex_expiry :: "string option"
  ex_doc_type_id :: int
  ex_legislation_ids :: "int list"
  doc_name :: string
  legislation_names :: "string list option"

record File =
  file_name :: string
  file_type :: string

record NewDocument =
  doc_type_id :: string
  doc_type_name :: string
  nd_file :: "File option"
  expiry :: string
  legislation_ids :: "string list"

record HrEmployeeDetails =
  d_system_id :: js_id
  d_fullname_en :: "string option"
  d_fullname_ar :: "string option"
  d_empno :: "string option"
  d_job_name :: "string option"
  d_department :: "string option"
  d_section :: "string option"
  d_email :: "string option"
  d_mobile :: "string option"
  d_supervisorname :: "string option"
  d_nationality :: "string option"

record FormData =
  employee_id :: js_id
  name_en :: string
  name_ar :: string
  employeeNumber :: string
  hireDate :: string
  jobTitle :: string
  nationality :: string
  email :: string
  phone :: string
  manager :: string
  department :: string
  fd_section :: string
  status_id :: string

text \<open>
  The component's props (\<open>employeeToEditId\<close>, and \<open>isViewer\<close> computed from
  \<open>user\<close>) and its state hooks.
\<close>

record form_state =
  employeeToEditId :: "int option"
  isViewer :: bool
  statuses :: StatusesResponse
  docTypes :: DocumentTypesResponse
  formData :: FormData
  existingDocuments :: "ExistingDocument list"
  newDocuments :: "NewDocument list"
  deletedDocIds :: "int list"
  isSubmitting :: bool
  error :: string
  isFormLocked :: bool

definition initial_formData :: FormData where
  "initial_formData =
     \<lparr> employee_id = Str [], name_en = [], name_ar = [], employeeNumber = [], hireDate = [],
       jobTitle = [], nationality = [], email = [], phone = [], manager = [],
       department = [], fd_section = [], status_id = [] \<rparr>"

definition initial_form_state :: "int option \<Rightarrow> bool \<Rightarrow> form_state" where
  "initial_form_state editId viewer =
     \<lparr> employeeToEditId = editId, isViewer = viewer,
       statuses = \<lparr> employee_status = [] \<rparr>,
       docTypes = \<lparr> all_types = [], types_with_expiry = [] \<rparr>,
       formData = initial_formData,
       existingDocuments = [], newDocuments = [], deletedDocIds = [],
       isSubmitting = False, error = [], isFormLocked = True \<rparr>"

section \<open>The employee form: memoised values\<close>

definition expiryDocTypeIds :: "DocumentTypesResponse \<Rightarrow> int set" where
  "expiryDocTypeIds dts = set (map system_id (types_with_expiry dts))"

definition arabic_warrant_decisions :: string where
  "arabic_warrant_decisions =
     [CHR 0xD8, CHR 0xA7, CHR 0xD9, CHR 0x84, CHR 0xD9, CHR 0x82, CHR 0xD8, CHR 0xB1,
      CHR 0xD8, CHR 0xA7, CHR 0xD8, CHR 0xB1, CHR 0xD8, CHR 0xA7, CHR 0xD8, CHR 0xAA,
      CHR 0x20, CHR 0xD8, CHR 0xA7, CHR 0xD9, CHR 0x84, CHR 0xD8, CHR 0xAE, CHR 0xD8,
      CHR 0xA7, CHR 0xD8, CHR 0xB5, CHR 0xD8, CHR 0xA9, CHR 0x20, CHR 0xD8, CHR 0xA8,
      CHR 0xD8, CHR 0xA7, CHR 0xD9, CHR 0x84, CHR 0xD8, CHR 0xB6, CHR 0xD8, CHR 0xA8,
      CHR 0xD8, CHR 0xB7, CHR 0xD9, CHR 0x8A, CHR 0xD8, CHR 0xA9]"

definition arabic_judicial_card :: string where
  "arabic_judicial_card =
     [CHR 0xD8, CHR 0xA8, CHR 0xD8, CHR 0xB7, CHR 0xD8, CHR 0xA7, CHR 0xD9, CHR 0x82,
      CHR 0xD8, CHR 0xA9, CHR 0x20, CHR 0xD8, CHR 0xA7, CHR 0xD9, CHR 0x84, CHR 0xD8,
      CHR 0xB6, CHR 0xD8, CHR 0xA8, CHR 0xD8, CHR 0xB7, CHR 0xD9, CHR 0x8A, CHR 0xD8,
      CHR 0xA9]"

text \<open>\<open>all_types.find(...)?.system_id\<close>: \<open>None\<close> is \<open>undefined\<close>.\<close>

definition warrantDecisionDocTypeId :: "DocumentTypesResponse \<Rightarrow> int option" where
  "warrantDecisionDocTypeId dts =
     map_option system_id
       (find (\<lambda>dt. str_includes (name dt) ''Warrant Decisions''
                  \<or> str_includes (name dt) arabic_warrant_decisions) (all_types dts))"

definition judicialCardDocTypeId :: "DocumentTypesResponse \<Rightarrow> int option" where
  "judicialCardDocTypeId dts =
     map_option system_id
       (find (\<lambda>dt. str_includes (name dt) ''Judicial Card''
                  \<or> str_includes (name dt) arabic_judicial_card) (all_types dts))"

section \<open>The employee form: loading\<close>

text \<open>
  The mount effect unlocks the form at once when an employee is being edited; the
  catalogs and the record arrive later, each through its own setter. The form data
  built from the fetched record (with its date formatting) is a parameter of
  \<open>hydrate\<close>; \<open>documents\<close> is \<open>details.documents\<close>, \<open>None\<close> when absent.
\<close>

fun truthy_num :: "int option \<Rightarrow> bool" where
  "truthy_num None = False"
| "truthy_num (Some n) = (n \<noteq> 0)"

definition mount_effect :: "form_state \<Rightarrow> form_state" where
  "mount_effect s = (if truthy_num (employeeToEditId s) then s\<lparr>isFormLocked := False\<rparr> else s)"

definition setStatuses :: "StatusesResponse \<Rightarrow> form_state \<Rightarrow> form_state" where
  "setStatuses v s = s\<lparr>statuses := v\<rparr>"

definition setDocTypes :: "DocumentTypesResponse \<Rightarrow> form_state \<Rightarrow> form_state" where
  "setDocTypes v s = s\<lparr>docTypes := v\<rparr>"

definition hydrate :: "FormData \<Rightarrow> ExistingDocument list option \<Rightarrow> form_state \<Rightarrow> form_state" where
  "hydrate fd documents s =
     s\<lparr>formData := fd,
       existingDocuments := (case documents of Some ds \<Rightarrow> ds | None \<Rightarrow> [])\<rparr>"

section \<open>The employee form: the derived status\<close>

text \<open>
  The effect with the dependencies \<open>existingDocuments\<close>, \<open>newDocuments\<close>,
  \<open>judicialCardDocTypeId\<close>, \<open>statuses\<close> and \<open>isFormLocked\<close>. It returns at once
  when the form is locked, when \<open>judicialCardDocTypeId\<close> is falsy (\<open>undefined\<close> or
  \<open>0\<close>) or when no status is loaded. The array \<open>allJudicialCardDocs\<close> is
  \<open>existingCards\<close> followed by \<open>newCards\<close>; only its length is read.
\<close>

definition derived_status_effect :: "form_state \<Rightarrow> form_state" where
  "derived_status_effect s =
     (case judicialCardDocTypeId (docTypes s) of
        None \<Rightarrow> s
      | Some jc \<Rightarrow>
          if isFormLocked s \<or> jc = 0 \<or> length (employee_status (statuses s)) = 0 then s
          else
            let existingCards = filter (\<lambda>doc. ex_doc_type_id doc = jc) (existingDocuments s);
                newCards = filter (\<lambda>doc. doc_type_id doc = toString jc) (newDocuments s);
                hasJudicialCard = (length (existingCards) + length (newCards) > 0);
                activeStatus = find (\<lambda>st. name_english st = ''Active'') (employee_status (statuses s));
                inactiveStatus = find (\<lambda>st. name_english st = ''Inactive'') (employee_status (statuses s))
            in if hasJudicialCard
               then (case activeStatus of
                       Some a \<Rightarrow> s\<lparr>formData := (formData s)\<lparr>status_id := toString (st_system_id a)\<rparr>\<rparr>
                     | None \<Rightarrow> s)
               else (case inactiveStatus of
                       Some i \<Rightarrow> s\<lparr>formData := (formData s)\<lparr>status_id := toString (st_system_id i)\<rparr>\<rparr>
                     | None \<Rightarrow> s))"

section \<open>The employee form: handlers\<close>

text \<open>
  \<open>handleEmployeeSelect\<close> awaits the profile; \<open>fetched\<close> is what the fetch and
  \<open>res.json()\<close> gave, \<open>None\<close> when either rejected (the handler then rejects too and
  sets nothing).
\<close>

definition handleEmployeeSelect ::
  "string \<Rightarrow> HrEmployeeDetails option \<Rightarrow> form_state \<Rightarrow> form_state" where
  "handleEmployeeSelect employeeId fetched s =
     (if employeeId = [] then s\<lparr>isFormLocked := True\<rparr>
      else case fetched of
             None \<Rightarrow> s
           | Some details \<Rightarrow>
               s\<lparr>formData :=
                   \<lparr> employee_id = d_system_id details,
                     name_en = or_empty (d_fullname_en details),
                     name_ar = or_empty (d_fullname_ar details),
                     employeeNumber = or_empty (d_empno details),
                     hireDate = [],
                     jobTitle = or_empty (d_job_name details),
                     nationality = or_empty (d_nationality details),
                     email = or_empty (d_email details),
                     phone = or_empty (d_mobile details),
                     manager = or_empty (d_supervisorname details),
                     department = or_empty (d_department details),
                     fd_section = or_empty (d_section details),
                     status_id = [] \<rparr>,
                 isFormLocked := False\<rparr>)"

text \<open>\<open>handleInputChange\<close> writes the field the input is named after.\<close>

datatype input_name =
  In_hireDate | In_jobTitle | In_email | In_phone | In_manager | In_department | In_section
  | In_status_id

fun handleInputChange :: "input_name \<Rightarrow> string \<Rightarrow> form_state \<Rightarrow> form_state" where
  "handleInputChange In_hireDate v s = s\<lparr>formData := (formData s)\<lparr>hireDate := v\<rparr>\<rparr>"
| "handleInputChange In_jobTitle v s = s\<lparr>formData := (formData s)\<lparr>jobTitle := v\<rparr>\<rparr>"
| "handleInputChange In_email v s = s\<lparr>formData := (formData s)\<lparr>email := v\<rparr>\<rparr>"
| "handleInputChange In_phone v s = s\<lparr>formData := (formData s)\<lparr>phone := v\<rparr>\<rparr>"
| "handleInputChange In_manager v s = s\<lparr>formData := (formData s)\<lparr>manager := v\<rparr>\<rparr>"
| "handleInputChange In_department v s = s\<lparr>formData := (formData s)\<lparr>department := v\<rparr>\<rparr>"
| "handleInputChange In_section v s = s\<lparr>formData := (formData s)\<lparr>fd_section := v\<rparr>\<rparr>"
| "handleInputChange In_status_id v s = s\<lparr>formData := (formData s)\<lparr>status_id := v\<rparr>\<rparr>"

definition handleNationalityChange :: "string \<Rightarrow> form_state \<Rightarrow> form_state" where
  "handleNationalityChange v s = s\<lparr>formData := (formData s)\<lparr>nationality := v\<rparr>\<rparr>"

definition empty_row :: NewDocument where
  "empty_row = \<lparr> doc_type_id = [], doc_type_name = [], nd_file = None, expiry = [],
                 legislation_ids = [] \<rparr>"

definition addNewDocumentRow :: "form_state \<Rightarrow> form_state" where
  "addNewDocumentRow s = s\<lparr>newDocuments := newDocuments s @ [empty_row]\<rparr>"

text \<open>
  The expression both legislation handlers evaluate:
  \<open>ids.includes(x) ? ids.filter(id => id !== x) : [...ids, x]\<close>.
\<close>

definition toggled :: "'a \<Rightarrow> 'a list \<Rightarrow> 'a list" where
  "toggled x ids = (if x \<in> set ids then filter (\<lambda>i. i \<noteq> x) ids else ids @ [x])"

text \<open>
  \<open>handleNewDocumentChange(index, field, value)\<close> at the calls the page makes: a file
  (or none) for \<open>file\<close>, a string for \<open>doc_type_id\<close>, \<open>expiry\<close> and
  \<open>legislation_ids\<close>. Reading a field of \<open>newDocs[index]\<close> beyond the end of the list
  throws a TypeError, after the error message was cleared.
\<close>

datatype NewDocumentChange =
  ChangeFile "File option" | ChangeLegislation string | ChangeDocTypeId string
  | ChangeExpiry string

datatype handler_result = Returned form_state | TypeError form_state

definition allowedTypes :: "string list" where
  "allowedTypes = [''image/jpeg'', ''image/png'', ''application/pdf'']"

definition set_doc_type :: "DocumentTypesResponse \<Rightarrow> string \<Rightarrow> NewDocument \<Rightarrow> NewDocument" where
  "set_doc_type dts v doc =
     (let selectedDocType = find (\<lambda>dt. toString (system_id dt) = v) (all_types dts);
          doc1 = doc\<lparr>doc_type_id := v,
                     doc_type_name := (case selectedDocType of Some dt \<Rightarrow> name dt | None \<Rightarrow> [])\<rparr>
      in if Some v \<noteq> map_option toString (warrantDecisionDocTypeId dts)
         then doc1\<lparr>legislation_ids := []\<rparr> else doc1)"

definition update_row :: "nat \<Rightarrow> (NewDocument \<Rightarrow> NewDocument) \<Rightarrow> form_state \<Rightarrow> handler_result" where
  "update_row index f s =
     (if index < length (newDocuments s)
      then Returned (s\<lparr>newDocuments := (newDocuments s)[index := f (newDocuments s ! index)]\<rparr>)
      else TypeError s)"

fun handleNewDocumentChange :: "nat \<Rightarrow> NewDocumentChange \<Rightarrow> form_state \<Rightarrow> handler_result" where
  "handleNewDocumentChange index (ChangeFile (Some v)) s =
     (if file_type v \<notin> set allowedTypes
      then Returned (s\<lparr>error := ''Invalid file type. Please upload only images (JPG, PNG) or PDF files.''\<rparr>)
      else update_row index (\<lambda>doc. doc\<lparr>nd_file := Some v\<rparr>) (s\<lparr>error := []\<rparr>))"
| "handleNewDocumentChange index (ChangeFile None) s = Returned (s\<lparr>error := []\<rparr>)"
| "handleNewDocumentChange index (ChangeLegislation legId) s =
     update_row index (\<lambda>doc. doc\<lparr>legislation_ids := toggled legId (legislation_ids doc)\<rparr>)
       (s\<lparr>error := []\<rparr>)"
| "handleNewDocumentChange index (ChangeDocTypeId v) s =
     update_row index (set_doc_type (docTypes s) v) (s\<lparr>error := []\<rparr>)"
| "handleNewDocumentChange index (ChangeExpiry v) s =
     update_row index (\<lambda>doc. doc\<lparr>expiry := v\<rparr>) (s\<lparr>error := []\<rparr>)"

definition handleExistingDocLegislationChange :: "int \<Rightarrow> int \<Rightarrow> form_state \<Rightarrow> form_state" where
  "handleExistingDocLegislationChange docSystemId legislationId s =
     s\<lparr>existingDocuments :=
         map (\<lambda>doc. if ex_system_id doc = docSystemId
                    then doc\<lparr>ex_legislation_ids := toggled legislationId (ex_legislation_ids doc)\<rparr>
                    else doc)
           (existingDocuments s)\<rparr>"

definition removeNewDocumentRow :: "nat \<Rightarrow> form_state \<Rightarrow> form_state" where
  "removeNewDocumentRow index s =
     s\<lparr>newDocuments := map snd (filter (\<lambda>(i, doc). i \<noteq> index) (enumerate 0 (newDocuments s)))\<rparr>"

definition handleDeleteExistingDoc :: "int \<Rightarrow> form_state \<Rightarrow> form_state" where
  "handleDeleteExistingDoc docId s =
     s\<lparr>existingDocuments := filter (\<lambda>doc. ex_system_id doc \<noteq> docId) (existingDocuments s),
       deletedDocIds := deletedDocIds s @ [docId]\<rparr>"

section \<open>The employee form: submission\<close>

text \<open>
  The multipart body is the list of the \<open>append\<close> calls in order. A value that the
  source writes with \<open>JSON.stringify\<close> is kept as the value that is serialised.
\<close>

datatype form_value =
  JsonFormData FormData | FileValue File | StringValue string | JsonIds "int list"
  | JsonUpdatedDocs "(int \<times> int list) list"

record http_request =
  url :: string
  http_method :: string
  body :: "(string \<times> form_value) list"

datatype submit_result =
  Ignored | ValidationFailed form_state | RequestIssued form_state http_request

definition basePath :: string where
  "basePath = ''/PTAARCHIVING''"

text \<open>\<open>expiryDocTypeIds.has(parseInt(doc.doc_type_id, 10))\<close>: no id is \<open>NaN\<close>.\<close>

fun set_has :: "int set \<Rightarrow> int option \<Rightarrow> bool" where
  "set_has ids None = False"
| "set_has ids (Some n) = (n \<in> ids)"

text \<open>The message of the template literal; \<open>docType?.name\<close> prints \<open>undefined\<close> when no type was found.\<close>

definition expiry_message :: "DocType option \<Rightarrow> string" where
  "expiry_message docType =
     ''Expiry date is required for document type '' @ [CHR 0x22]
       @ (case docType of Some t \<Rightarrow> name t | None \<Rightarrow> ''undefined'') @ [CHR 0x22] @ ''.''"

text \<open>The \<open>for ... of\<close> loop over \<open>newDocuments\<close>: the first row that fails ends it.\<close>

fun validate_newDocuments :: "DocumentTypesResponse \<Rightarrow> NewDocument list \<Rightarrow> string option" where
  "validate_newDocuments dts [] = None"
| "validate_newDocuments dts (doc # rest) =
     (if doc_type_id doc \<noteq> []
         \<and> set_has (expiryDocTypeIds dts) (parseInt (doc_type_id doc))
         \<and> expiry doc = []
      then Some (expiry_message (find (\<lambda>t. toString (system_id t) = doc_type_id doc) (all_types dts)))
      else validate_newDocuments dts rest)"

definition new_document_key :: "nat \<Rightarrow> string \<Rightarrow> string" where
  "new_document_key index field = ''new_documents['' @ toString (int index) @ '']['' @ field @ '']''"

definition newDocument_entries :: "nat \<Rightarrow> NewDocument \<Rightarrow> (string \<times> form_value) list" where
  "newDocument_entries index doc =
     (case nd_file doc of
        None \<Rightarrow> []
      | Some f \<Rightarrow>
          if doc_type_id doc = [] then []
          else [(new_document_key index ''file'', FileValue f),
                (new_document_key index ''doc_type_id'', StringValue (doc_type_id doc)),
                (new_document_key index ''doc_type_name'', StringValue (doc_type_name doc)),
                (new_document_key index ''expiry'', StringValue (expiry doc))]
               @ map (\<lambda>legId. (new_document_key index ''legislation_ids'' @ ''[]'', StringValue legId))
                   (legislation_ids doc))"

text \<open>\<open>newDocuments.forEach((doc, index) => ...)\<close>, the index counted from the first row.\<close>

fun forEach_newDocuments :: "nat \<Rightarrow> NewDocument list \<Rightarrow> (string \<times> form_value) list" where
  "forEach_newDocuments index [] = []"
| "forEach_newDocuments index (doc # rest) =
     newDocument_entries index doc @ forEach_newDocuments (Suc index) rest"

definition submissionData :: "form_state \<Rightarrow> (string \<times> form_value) list" where
  "submissionData s =
     [(''employee_data'', JsonFormData (formData s))]
     @ forEach_newDocuments 0 (newDocuments s)
     @ [(''deleted_documents'', JsonIds (deletedDocIds s))]
     @ (if truthy_num (employeeToEditId s)
        then [(''updated_documents'',
               JsonUpdatedDocs
                 (map (\<lambda>doc. (ex_system_id doc, ex_legislation_ids doc))
                    (filter (\<lambda>doc. Some (ex_doc_type_id doc) = warrantDecisionDocTypeId (docTypes s))
                       (existingDocuments s))))]
        else [])"

definition submit_request :: "form_state \<Rightarrow> http_request" where
  "submit_request s =
     (case employeeToEditId s of
        Some n \<Rightarrow>
          if n \<noteq> 0
          then \<lparr> url = basePath @ ''/api/employees/'' @ toString n, http_method = ''PUT'',
                 body = submissionData s \<rparr>
          else \<lparr> url = basePath @ ''/api/employees'', http_method = ''POST'',
                 body = submissionData s \<rparr>
      | None \<Rightarrow> \<lparr> url = basePath @ ''/api/employees'', http_method = ''POST'',
                  body = submissionData s \<rparr>)"

text \<open>\<open>handleSubmit\<close> up to the request it awaits.\<close>

definition handleSubmit :: "form_state \<Rightarrow> submit_result" where
  "handleSubmit s =
     (if isViewer s then Ignored
      else if \<not> truthy (employee_id (formData s))
      then ValidationFailed (s\<lparr>error := ''An employee must be selected.''\<rparr>)
      else case validate_newDocuments (docTypes s) (newDocuments s) of
             Some message \<Rightarrow> ValidationFailed (s\<lparr>error := message\<rparr>)
           | None \<Rightarrow> RequestIssued (s\<lparr>error := [], isSubmitting := True\<rparr>) (submit_request s))"

text \<open>
  The rest of \<open>handleSubmit\<close>, once the response is there: \<open>ok\<close> is \<open>response.ok\<close>,
  \<open>result_error\<close> the \<open>error\<close> field of the body. The boolean tells whether
  \<open>onFormSubmit\<close> and \<open>onBack\<close> were called.
\<close>

definition handleSubmit_response :: "bool \<Rightarrow> string option \<Rightarrow> form_state \<Rightarrow> form_state \<times> bool" where
  "handleSubmit_response ok result_error s =
     (if ok then (s\<lparr>isSubmitting := False\<rparr>, True)
      else (s\<lparr>error := (case result_error of
                            Some e \<Rightarrow> if e = [] then ''An error occurred.'' else e
                          | None \<Rightarrow> ''An error occurred.''),
              isSubmitting := False\<rparr>, False))"

section \<open>The employee form: the document type options\<close>

definition is_other :: "string \<Rightarrow> bool" where
  "is_other nm = str_includes (toLowerCase nm) ''other''"

text \<open>
  The two \<open>forEach\<close> loops that fill the set \<open>usedNonOtherTypes\<close>; \<open>docTypeId &&\<close> is
  false for \<open>NaN\<close> and for \<open>0\<close>.
\<close>

definition add_existing_type :: "ExistingDocument \<Rightarrow> int set \<Rightarrow> int set" where
  "add_existing_type doc used =
     (if \<not> is_other (doc_name doc) then insert (ex_doc_type_id doc) used else used)"

definition add_new_type :: "NewDocument \<Rightarrow> int set \<Rightarrow> int set" where
  "add_new_type doc used =
     (case parseInt (doc_type_id doc) of
        None \<Rightarrow> used
      | Some docTypeId \<Rightarrow>
          if docTypeId \<noteq> 0 \<and> \<not> is_other (doc_type_name doc) then insert docTypeId used
          else used)"

definition usedDocTypeIds :: "form_state \<Rightarrow> int set" where
  "usedDocTypeIds s =
     fold add_new_type (newDocuments s) (fold add_existing_type (existingDocuments s) {})"

text \<open>The \<open>disabled\<close> attribute of the option of type \<open>ty\<close> in the select of row \<open>doc\<close>.\<close>

definition option_disabled :: "form_state \<Rightarrow> NewDocument \<Rightarrow> DocType \<Rightarrow> bool" where
  "option_disabled s doc ty =
     (system_id ty \<in> usedDocTypeIds s \<and> toString (system_id ty) \<noteq> doc_type_id doc)"

section \<open>The employee form: what the rendered page lets a user do\<close>

text \<open>
  The derived-status effect runs after a render in which one of its dependencies
  changed. A list or an object that a setter received is a new reference, so the effect
  runs (\<open>set_called\<close>); \<open>judicialCardDocTypeId\<close> and \<open>isFormLocked\<close> are compared
  by value.
\<close>

definition effects_after :: "bool \<Rightarrow> form_state \<Rightarrow> form_state \<Rightarrow> form_state" where
  "effects_after set_called old new =
     (if set_called
         \<or> judicialCardDocTypeId (docTypes old) \<noteq> judicialCardDocTypeId (docTypes new)
         \<or> isFormLocked old \<noteq> isFormLocked new
      then derived_status_effect new else new)"

definition isWarrantDecision :: "form_state \<Rightarrow> int \<Rightarrow> bool" where
  "isWarrantDecision s type_id =
     (case warrantDecisionDocTypeId (docTypes s) of
        None \<Rightarrow> False
      | Some w \<Rightarrow> w \<noteq> 0 \<and> type_id = w)"

definition isWarrantDecision_row :: "form_state \<Rightarrow> NewDocument \<Rightarrow> bool" where
  "isWarrantDecision_row s doc =
     (case warrantDecisionDocTypeId (docTypes s) of
        None \<Rightarrow> False
      | Some w \<Rightarrow> w \<noteq> 0 \<and> doc_type_id doc = toString w)"

text \<open>
  The events of the form between two loads of the record. A control that is not
  rendered, or that is disabled, gives no event: the documents sit in a fieldset that
  is disabled while the form is locked, a viewer sees no editing control, the employee
  picker exists only when no record is being edited and calls back with the decimal id
  of a listed employee, and the status select is always disabled.
\<close>

datatype form_event =
  EvStatusesLoaded StatusesResponse
  | EvDocTypesLoaded DocumentTypesResponse
  | EvSelectEmployee int "HrEmployeeDetails option"
  | EvInput input_name string
  | EvNationality string
  | EvAddRow
  | EvChangeRow nat NewDocumentChange
  | EvRemoveRow nat
  | EvToggleExistingLegislation int int
  | EvDeleteExisting int

definition editing_enabled :: "form_state \<Rightarrow> bool" where
  "editing_enabled s = (\<not> isViewer s \<and> \<not> isFormLocked s)"

fun change_offered :: "form_state \<Rightarrow> NewDocument \<Rightarrow> NewDocumentChange \<Rightarrow> bool" where
  "change_offered s doc (ChangeFile f) = True"
| "change_offered s doc (ChangeLegislation legId) = isWarrantDecision_row s doc"
| "change_offered s doc (ChangeDocTypeId v) =
     (v = [] \<or> list_ex (\<lambda>ty. toString (system_id ty) = v \<and> \<not> option_disabled s doc ty)
                  (all_types (docTypes s)))"
| "change_offered s doc (ChangeExpiry v) =
     set_has (expiryDocTypeIds (docTypes s)) (parseInt (doc_type_id doc))"

fun calls_setNewDocuments :: "NewDocumentChange \<Rightarrow> bool" where
  "calls_setNewDocuments (ChangeFile (Some v)) = (file_type v \<in> set allowedTypes)"
| "calls_setNewDocuments change = True"

fun form_step :: "form_event \<Rightarrow> form_state \<Rightarrow> form_state option" where
  "form_step (EvStatusesLoaded v) s = Some (effects_after True s (setStatuses v s))"
| "form_step (EvDocTypesLoaded v) s = Some (effects_after False s (setDocTypes v s))"
| "form_step (EvSelectEmployee n fetched) s =
     (if truthy_num (employeeToEditId s) \<or> isViewer s then None
      else Some (effects_after False s (handleEmployeeSelect (toString n) fetched s)))"
| "form_step (EvInput nm v) s =
     (if editing_enabled s \<and> nm \<noteq> In_status_id
      then Some (effects_after False s (handleInputChange nm v s)) else None)"
| "form_step (EvNationality v) s =
     (if editing_enabled s then Some (effects_after False s (handleNationalityChange v s))
      else None)"
| "form_step EvAddRow s =
     (if editing_enabled s then Some (effects_after True s (addNewDocumentRow s)) else None)"
| "form_step (EvChangeRow index change) s =
     (if editing_enabled s \<and> index < length (newDocuments s)
         \<and> change_offered s (newDocuments s ! index) change
      then (case handleNewDocumentChange index change s of
              Returned s' \<Rightarrow> Some (effects_after (calls_setNewDocuments change) s s')
            | TypeError s' \<Rightarrow> None)
      else None)"
| "form_step (EvRemoveRow index) s =
     (if editing_enabled s \<and> index < length (newDocuments s)
      then Some (effects_after True s (removeNewDocumentRow index s)) else None)"
| "form_step (EvToggleExistingLegislation docId legId) s =
     (if editing_enabled s \<and> truthy_num (employeeToEditId s)
         \<and> list_ex (\<lambda>doc. ex_system_id doc = docId \<and> isWarrantDecision s (ex_doc_type_id doc))
              (existingDocuments s)
      then Some (effects_after True s (handleExistingDocLegislationChange docId legId s))
      else None)"
| "form_step (EvDeleteExisting docId) s =
     (if editing_enabled s \<and> truthy_num (employeeToEditId s)
         \<and> list_ex (\<lambda>doc. ex_system_id doc = docId) (existingDocuments s)
      then Some (effects_after True s (handleDeleteExistingDoc docId s)) else None)"

fun form_run :: "form_event list \<Rightarrow> form_state \<Rightarrow> form_state option" where
  "form_run [] s = Some s"
| "form_run (e # es) s = (case form_step e s of None \<Rightarrow> None | Some s' \<Rightarrow> form_run es s')"

section \<open>The searchable employee select\<close>

text \<open>
  The state hooks of \<open>SearchableEmployeeSelect\<close>, its two refs and what the browser
  holds for it. \<open>ref_isLoading\<close> and \<open>ref_hasMore\<close> are \<open>loadingStatusRef.current\<close>,
  written during a render; \<open>rendered_page\<close> and \<open>rendered_searchTerm\<close> are the values
  the handlers of the last render closed over. A controller is named by the number of
  the request it was created for. \<open>timer\<close> is the pending 300 ms timeout with the search
  term its callback closed over; \<open>issued\<close> lists the requests sent, \<open>pending\<close> the
  requests not yet settled, \<open>aborted\<close> the controllers on which \<open>abort()\<close> was called;
  \<open>console\<close> collects the names of the errors given to \<open>console.error\<close> and
  \<open>selected\<close> the arguments of \<open>onEmployeeSelect\<close>.
\<close>

record HrEmployee =
  hr_system_id :: int
  fullname_en :: string
  fullname_ar :: string
  empno :: string

record ApiHrResponse =
  resp_employees :: "HrEmployee list"
  resp_hasMore :: bool

record hr_request =
  controller :: nat
  search :: string
  page_param :: nat
  isNewSearch :: bool

record select_state =
  disabled :: bool
  mounted :: bool
  employees :: "HrEmployee list"
  searchTerm :: string
  page :: nat
  hasMore :: bool
  isLoading :: bool
  isOpen :: bool
  fetchController :: "nat option"
  ref_isLoading :: bool
  ref_hasMore :: bool
  rendered_page :: nat
  rendered_searchTerm :: string
  timer :: "string option"
  issued :: "hr_request list"
  pending :: "nat list"
  aborted :: "nat list"
  console :: "string list"
  selected :: "string list"

definition render :: "select_state \<Rightarrow> select_state" where
  "render s = s\<lparr>ref_isLoading := isLoading s, ref_hasMore := hasMore s,
               rendered_page := page s, rendered_searchTerm := searchTerm s\<rparr>"

text \<open>The state after the first render and the debounce effect that follows it.\<close>

definition mounted_select :: "bool \<Rightarrow> select_state" where
  "mounted_select dis =
     \<lparr> disabled = dis, mounted = True, employees = [], searchTerm = [], page = 1,
       hasMore = True, isLoading = False, isOpen = False, fetchController = None,
       ref_isLoading = False, ref_hasMore = True, rendered_page = 1,
       rendered_searchTerm = [], timer = Some [], issued = [], pending = [],
       aborted = [], console = [], selected = [] \<rparr>"

definition abort_current :: "select_state \<Rightarrow> select_state" where
  "abort_current s =
     (case fetchController s of
        None \<Rightarrow> s
      | Some c \<Rightarrow> s\<lparr>aborted := aborted s @ [c]\<rparr>)"

text \<open>
  \<open>fetchEmployees(currentSearch, currentPage, isNewSearch)\<close> up to the call of
  \<open>fetch\<close>: the guard on the ref, the abort of the controller in \<open>fetchController\<close>,
  a new controller, \<open>setIsLoading(true)\<close> and the request.
\<close>

definition fetchEmployees :: "string \<Rightarrow> nat \<Rightarrow> bool \<Rightarrow> select_state \<Rightarrow> select_state" where
  "fetchEmployees currentSearch currentPage newSearch s =
     (if ref_isLoading s \<or> (\<not> ref_hasMore s \<and> \<not> newSearch) then s
      else let s1 = abort_current s; c = length (issued s1)
           in s1\<lparr>fetchController := Some c,
                 isLoading := True,
                 issued := issued s1 @ [\<lparr> controller = c, search = currentSearch,
                                          page_param = currentPage, isNewSearch = newSearch \<rparr>],
                 pending := pending s1 @ [c]\<rparr>)"

text \<open>
  What a request settles with. A fetch whose signal was aborted rejects with an
  \<open>AbortError\<close> whatever the network did; \<open>Rejected\<close> carries the \<open>name\<close> of the
  error.
\<close>

datatype fetch_outcome = Resolved ApiHrResponse | Rejected string

definition delivered :: "select_state \<Rightarrow> nat \<Rightarrow> fetch_outcome \<Rightarrow> fetch_outcome" where
  "delivered s c outcome = (if c \<in> set (aborted s) then Rejected ''AbortError'' else outcome)"

text \<open>
  The promise chain of a request: \<open>then\<close> applies the page, \<open>catch\<close> logs every error
  but an \<open>AbortError\<close>, \<open>finally\<close> clears \<open>isLoading\<close>. The setters of an unmounted
  component do nothing.
\<close>

definition promise_chain :: "hr_request \<Rightarrow> fetch_outcome \<Rightarrow> select_state \<Rightarrow> select_state" where
  "promise_chain r outcome s =
     (case outcome of
        Resolved data \<Rightarrow>
          if mounted s
          then s\<lparr>employees := (if isNewSearch r then resp_employees data
                                else employees s @ resp_employees data),
                 hasMore := resp_hasMore data,
                 isLoading := False\<rparr>
          else s
      | Rejected err \<Rightarrow>
          let s1 = (if err \<noteq> ''AbortError'' then s\<lparr>console := console s @ [err]\<rparr> else s)
          in if mounted s then s1\<lparr>isLoading := False\<rparr> else s1)"

definition settle :: "nat \<Rightarrow> fetch_outcome \<Rightarrow> select_state \<Rightarrow> select_state option" where
  "settle c outcome s =
     (if c \<in> set (pending s) \<and> c < length (issued s)
      then Some (promise_chain (issued s ! c) (delivered s c outcome)
                   (s\<lparr>pending := removeAll c (pending s)\<rparr>))
      else None)"

text \<open>
  The debounce effect: its cleanup clears the timeout of the previous run, then a new
  timeout of 300 ms is set. The callback of the timeout clears the list and fetches the
  first page of the term it closed over.
\<close>

definition debounce_effect :: "select_state \<Rightarrow> select_state" where
  "debounce_effect s = s\<lparr>timer := Some (searchTerm s)\<rparr>"

definition timeout_callback :: "string \<Rightarrow> select_state \<Rightarrow> select_state" where
  "timeout_callback term s =
     fetchEmployees term 1 True (s\<lparr>employees := [], page := 1, hasMore := True\<rparr>)"

text \<open>
  \<open>onChange\<close> of the input: a render follows at once, and the debounce effect runs
  again when the term changed.
\<close>

definition onChange :: "string \<Rightarrow> select_state \<Rightarrow> select_state" where
  "onChange v s =
     (let s1 = render (s\<lparr>searchTerm := v, isOpen := True\<rparr>)
      in if v \<noteq> searchTerm s then debounce_effect s1 else s1)"

definition handleScroll :: "select_state \<Rightarrow> select_state" where
  "handleScroll s =
     (if ref_hasMore s \<and> \<not> ref_isLoading s
      then let nextPage = rendered_page s + 1
           in fetchEmployees (rendered_searchTerm s) nextPage False (s\<lparr>page := nextPage\<rparr>)
      else s)"

definition handleSelect :: "HrEmployee \<Rightarrow> select_state \<Rightarrow> select_state" where
  "handleSelect employee s =
     (let v = fullname_en employee @ '' ('' @ empno employee @ '')'';
          s1 = render (s\<lparr>searchTerm := v, isOpen := False,
                          selected := selected s @ [toString (hr_system_id employee)]\<rparr>)
      in if v \<noteq> searchTerm s then debounce_effect s1 else s1)"

text \<open>Unmounting runs the cleanup of the debounce effect, and nothing else.\<close>

definition unmount :: "select_state \<Rightarrow> select_state" where
  "unmount s = s\<lparr>mounted := False, timer := None\<rparr>"

text \<open>
  The events of the select. \<open>Elapsed\<close> is the pending timeout firing, 300 ms after
  the last change of the term; \<open>Render\<close> is the render that follows state updates made
  outside an input event; \<open>ScrollToBottom\<close> is a scroll event within 10 pixels of the end
  of the open list.
\<close>

datatype select_event =
  Keystroke string | Elapsed | Render | Settle nat fetch_outcome | ScrollToBottom
  | Pick HrEmployee | Unmount

fun select_step :: "select_event \<Rightarrow> select_state \<Rightarrow> select_state option" where
  "select_step (Keystroke v) s =
     (if mounted s \<and> \<not> disabled s then Some (onChange v s) else None)"
| "select_step Elapsed s =
     (case timer s of
        None \<Rightarrow> None
      | Some term \<Rightarrow> Some (timeout_callback term (s\<lparr>timer := None\<rparr>)))"
| "select_step Render s = (if mounted s then Some (render s) else None)"
| "select_step (Settle c outcome) s = settle c outcome s"
| "select_step ScrollToBottom s =
     (if mounted s \<and> \<not> disabled s \<and> isOpen s then Some (handleScroll s) else None)"
| "select_step (Pick employee) s =
     (if mounted s \<and> \<not> disabled s \<and> isOpen s \<and> employee \<in> set (employees s)
      then Some (handleSelect employee s) else None)"
| "select_step Unmount s = (if mounted s then Some (unmount s) else None)"

fun select_run :: "select_event list \<Rightarrow> select_state \<Rightarrow> select_state option" where
  "select_run [] s = Some s"
| "select_run (e # es) s =
     (case select_step e s of None \<Rightarrow> None | Some s' \<Rightarrow> select_run es s')"

text \<open>The requests a run sent: those in \<open>issued\<close> after it that were not there before.\<close>

definition requests_sent :: "select_state \<Rightarrow> select_state \<Rightarrow> hr_request list" where
  "requests_sent before after = drop (length (issued before)) (issued after)"

section \<open>The proxy route\<close>

text \<open>
  \<open>proxyHandler\<close> of \<open>app/api/[...proxy]/route.ts\<close>. \<open>BACKEND_URL\<close> is the environment
  variable, \<open>None\<close> when it is not set; the upstream is a function from the request
  \<open>fetch\<close> sends to what \<open>fetch\<close> does, which is to throw or to return a response.
  The handler's result is the response together with the calls of \<open>fetch\<close> it made.
\<close>

record next_request =
  req_method :: string
  req_headers :: "(string \<times> string) list"
  req_body :: "string option"
  req_search :: string
  params_proxy :: "string list"

record upstream_call =
  call_url :: string
  call_method :: string
  call_headers :: "(string \<times> string) list"
  call_body :: "string option"

record upstream_response =
  up_status :: nat
  up_statusText :: string
  up_headers :: "(string \<times> string) list"
  up_body :: "string option"

datatype fetch_result = Throws | Responds upstream_response

datatype response_body = JsonError string | Stream "string option"

record next_response =
  status :: nat
  statusText :: string
  headers :: "(string \<times> string) list"
  response_body :: response_body

text \<open>\<open>parts.join('/')\<close>.\<close>

fun join_slash :: "string list \<Rightarrow> string" where
  "join_slash [] = []"
| "join_slash [p] = p"
| "join_slash (p # q # ps) = p @ ''/'' @ join_slash (q # ps)"

text \<open>\<open>NextResponse.json({ error: message }, { status: code })\<close>.\<close>

definition json_error :: "string \<Rightarrow> nat \<Rightarrow> next_response" where
  "json_error message code =
     \<lparr> status = code, statusText = [], headers = [(''content-type'', ''application/json'')],
       response_body = JsonError message \<rparr>"

definition proxyHandler ::
  "string option \<Rightarrow> (upstream_call \<Rightarrow> fetch_result) \<Rightarrow> next_request
     \<Rightarrow> next_response \<times> upstream_call list" where
  "proxyHandler BACKEND_URL upstream req =
     (let apiPath = ''/api/'' @ join_slash (params_proxy req)
      in case BACKEND_URL of
           None \<Rightarrow> (json_error ''Backend API URL is not configured on the server.'' 500, [])
         | Some backend \<Rightarrow>
             if backend = []
             then (json_error ''Backend API URL is not configured on the server.'' 500, [])
             else
               let targetUrl = backend @ apiPath @ req_search req;
                   call = \<lparr> call_url = targetUrl, call_method = req_method req,
                            call_headers = req_headers req,
                            call_body = (if req_method req \<noteq> ''GET'' \<and> req_method req \<noteq> ''HEAD''
                                         then req_body req else None) \<rparr>
               in case upstream call of
                    Throws \<Rightarrow> (json_error ''Error forwarding request to the backend.'' 502, [call])
                  | Responds response \<Rightarrow>
                      (\<lparr> status = up_status response, statusText = up_statusText response,
                         headers = up_headers response,
                         response_body = Stream (up_body response) \<rparr>, [call]))"

section \<open>Notions the properties are stated with\<close>

text \<open>The ids of the stored documents the form lists.\<close>

definition listed_ids :: "form_state \<Rightarrow> int set" where
  "listed_ids s = set (map ex_system_id (existingDocuments s))"


text \<open>
  A pending row lacks a required expiry date: its type id reads as the id of a type
  listed in \<open>types_with_expiry\<close>, and its expiry is empty.
\<close>

definition expiry_missing :: "DocumentTypesResponse \<Rightarrow> NewDocument \<Rightarrow> bool" where
  "expiry_missing dts doc =
     (set_has (expiryDocTypeIds dts) (parseInt (doc_type_id doc)) \<and> expiry doc = [])"

text \<open>
  Two runs of the select that differ at most in what cancelled requests settle with:
  event by event they are the same, except that a request whose controller was aborted
  by then may settle with different outcomes in the two runs.
\<close>

fun same_or_cancelled :: "select_state \<Rightarrow> select_event \<Rightarrow> select_event \<Rightarrow> bool" where
  "same_or_cancelled s (Settle c outcome) (Settle c' outcome') =
     (c = c' \<and> (outcome = outcome' \<or> c \<in> set (aborted s)))"
| "same_or_cancelled s e e' = (e = e')"

fun differ_in_cancelled :: "select_state \<Rightarrow> select_event list \<Rightarrow> select_event list \<Rightarrow> bool" where
  "differ_in_cancelled s [] [] = True"
| "differ_in_cancelled s (e # es) (e' # es') =
     (same_or_cancelled s e e'
      \<and> (case select_step e s of None \<Rightarrow> True | Some s1 \<Rightarrow> differ_in_cancelled s1 es es'))"
| "differ_in_cancelled s es es' = False"

text \<open>A keystroke changes the text: each text of a burst differs from the one before it.\<close>

fun each_changes :: "string \<Rightarrow> string list \<Rightarrow> bool" where
  "each_changes current [] = True"
| "each_changes current (v # vs) = (v \<noteq> current \<and> each_changes v vs)"

text \<open>
  The dependency array of the derived-status effect, compared by value, and the status
  the handler of an event leaves before the effect runs: the empty one after an
  employee was selected, the status from before the event otherwise.
\<close>

definition effect_dependencies ::
  "form_state \<Rightarrow> ExistingDocument list \<times> NewDocument list \<times> int option \<times> StatusesResponse \<times> bool" where
  "effect_dependencies s =
     (existingDocuments s, newDocuments s, judicialCardDocTypeId (docTypes s), statuses s,
      isFormLocked s)"

fun status_before_effect :: "form_event \<Rightarrow> form_state \<Rightarrow> string" where
  "status_before_effect (EvSelectEmployee n fetched) s = []"
| "status_before_effect e s = status_id (formData s)"

section \<open>Concrete inputs\<close>

text \<open>A profile as \<open>/api/hr_employees/42\<close> returns it, and the form seeded from it.\<close>

definition profile_42 :: HrEmployeeDetails where
  "profile_42 =
     \<lparr> d_system_id = Num 42, d_fullname_en = Some ''Alice'', d_fullname_ar = None,
       d_empno = Some ''E-7'', d_job_name = Some ''Inspector'', d_department = None,
       d_section = None, d_email = None, d_mobile = None, d_supervisorname = None,
       d_nationality = None \<rparr>"

definition seeded_form :: form_state where
  "seeded_form = handleEmployeeSelect ''42'' (Some profile_42) (initial_form_state None False)"

text \<open>A pending warrant decision with two legislations ticked, and a stored one.\<close>

definition warrant_row :: NewDocument where
  "warrant_row =
     \<lparr> doc_type_id = ''7'', doc_type_name = ''Warrant Decisions'', nd_file = None,
       expiry = [], legislation_ids = [''3'', ''8''] \<rparr>"

definition stored_warrant :: ExistingDocument where
  "stored_warrant =
     \<lparr> ex_system_id = 100, docnumber = 5001, ex_expiry = None, ex_doc_type_id = 7,
       ex_legislation_ids = [3, 8], doc_name = ''Warrant Decisions'',
       legislation_names = None \<rparr>"

definition warrant_form :: form_state where
  "warrant_form =
     (initial_form_state (Some 12) False)
       \<lparr> existingDocuments := [stored_warrant], newDocuments := [warrant_row],
         isFormLocked := False \<rparr>"

text \<open>A request to the proxy and two upstreams: one that answers, one that is down.\<close>

definition get_statuses :: next_request where
  "get_statuses =
     \<lparr> req_method = ''GET'', req_headers = [(''cookie'', ''sid=1'')], req_body = None,
       req_search = ''?lang=ar'', params_proxy = [''statuses''] \<rparr>"

definition answer_404 :: upstream_response where
  "answer_404 =
     \<lparr> up_status = 404, up_statusText = ''Not Found'',
       up_headers = [(''content-type'', ''text/plain'')], up_body = Some ''no such record'' \<rparr>"

text \<open>
  Two document types, of which only the passport carries an expiry date, and a form
  with the employee of \<open>profile_42\<close> selected.
\<close>

definition passport_type :: DocType where
  "passport_type = \<lparr> system_id = 1, name = ''Passport'' \<rparr>"

definition photo_type :: DocType where
  "photo_type = \<lparr> system_id = 2, name = ''Photo'' \<rparr>"

definition two_types :: DocumentTypesResponse where
  "two_types = \<lparr> all_types = [passport_type, photo_type], types_with_expiry = [passport_type] \<rparr>"

definition scan :: File where
  "scan = \<lparr> file_name = ''scan.pdf'', file_type = ''application/pdf'' \<rparr>"

definition passport_row :: NewDocument where
  "passport_row =
     \<lparr> doc_type_id = ''1'', doc_type_name = ''Passport'', nd_file = Some scan, expiry = [],
       legislation_ids = [] \<rparr>"

definition photo_row :: NewDocument where
  "photo_row =
     \<lparr> doc_type_id = ''2'', doc_type_name = ''Photo'', nd_file = Some scan, expiry = [],
       legislation_ids = [] \<rparr>"

definition form_with :: "NewDocument list \<Rightarrow> form_state" where
  "form_with rows = seeded_form\<lparr>docTypes := two_types, newDocuments := rows\<rparr>"

text \<open>A passport row with no file chosen yet.\<close>

definition unfiled_row :: NewDocument where
  "unfiled_row = passport_row\<lparr>nd_file := None\<rparr>"

text \<open>A photo row with no file chosen yet, and a row with a file and no type.\<close>

definition unfiled_photo :: NewDocument where
  "unfiled_photo = photo_row\<lparr>nd_file := None\<rparr>"

definition untyped_row :: NewDocument where
  "untyped_row = empty_row\<lparr>nd_file := Some scan\<rparr>"

text \<open>The form of a viewer who opened the record of an employee.\<close>

definition viewer_form :: form_state where
  "viewer_form = (initial_form_state (Some 12) True)\<lparr>isFormLocked := False\<rparr>"

text \<open>
  A catalog with a judicial card type, the two statuses of the derived status, and a
  stored judicial card.
\<close>

definition card_type :: DocType where
  "card_type = \<lparr> system_id = 5, name = ''Judicial Card'' \<rparr>"

definition card_catalog :: DocumentTypesResponse where
  "card_catalog =
     \<lparr> all_types = [passport_type, photo_type, card_type],
       types_with_expiry = [passport_type, card_type] \<rparr>"

definition active_status :: Status where
  "active_status = \<lparr> st_system_id = 1, name_english = ''Active'', name_arabic = [] \<rparr>"

definition inactive_status :: Status where
  "inactive_status = \<lparr> st_system_id = 2, name_english = ''Inactive'', name_arabic = [] \<rparr>"

definition stored_card :: ExistingDocument where
  "stored_card =
     \<lparr> ex_system_id = 200, docnumber = 6001, ex_expiry = Some ''2030-01-01'',
       ex_doc_type_id = 5, ex_legislation_ids = [], doc_name = ''Judicial Card'',
       legislation_names = None \<rparr>"

text \<open>An unlocked form with no document, and one whose catalog of statuses lacks \<open>Inactive\<close>.\<close>

definition card_form :: form_state where
  "card_form =
     seeded_form\<lparr>docTypes := card_catalog,
                 statuses := \<lparr> employee_status = [active_status, inactive_status] \<rparr>\<rparr>"

definition active_only_form :: form_state where
  "active_only_form =
     (initial_form_state (Some 12) False)
       \<lparr> docTypes := card_catalog, statuses := \<lparr> employee_status = [active_status] \<rparr>,
         existingDocuments := [stored_card], isFormLocked := False \<rparr>"

text \<open>
  Both statuses as the server lists them, and the record of an employee under edit:
  unlocked, with both catalogs loaded, a stored judicial card and the status
  \<open>Active\<close>.
\<close>

definition both_statuses :: StatusesResponse where
  "both_statuses = \<lparr> employee_status = [active_status, inactive_status] \<rparr>"

definition edited_card_form :: form_state where
  "edited_card_form =
     (initial_form_state (Some 12) False)
       \<lparr> docTypes := card_catalog, statuses := both_statuses,
         formData := initial_formData\<lparr>status_id := ''1''\<rparr>,
         existingDocuments := [stored_card], isFormLocked := False \<rparr>"

text \<open>
  A catalog whose passport type has the id 0, and a form in which the first pending
  row holds that type while the second row is still empty.
\<close>

definition zero_type :: DocType where
  "zero_type = \<lparr> system_id = 0, name = ''Passport'' \<rparr>"

definition zero_row :: NewDocument where
  "zero_row =
     \<lparr> doc_type_id = ''0'', doc_type_name = ''Passport'', nd_file = Some scan,
       expiry = ''2031-05-01'', legislation_ids = [] \<rparr>"

definition zero_form :: form_state where
  "zero_form =
     seeded_form\<lparr>docTypes := \<lparr> all_types = [zero_type, photo_type], types_with_expiry = [] \<rparr>,
                 newDocuments := [zero_row, empty_row]\<rparr>"

text \<open>A type named \<open>Other\<close>, held by two pending rows and by a stored document.\<close>

definition other_type :: DocType where
  "other_type = \<lparr> system_id = 9, name = ''Other'' \<rparr>"

definition other_row :: NewDocument where
  "other_row =
     \<lparr> doc_type_id = ''9'', doc_type_name = ''Other'', nd_file = Some scan, expiry = [],
       legislation_ids = [] \<rparr>"

definition stored_other :: ExistingDocument where
  "stored_other =
     \<lparr> ex_system_id = 300, docnumber = 7001, ex_expiry = None, ex_doc_type_id = 9,
       ex_legislation_ids = [], doc_name = ''Other'',
       legislation_names = None \<rparr>"

definition mixed_form :: form_state where
  "mixed_form =
     (initial_form_state (Some 12) False)
       \<lparr> docTypes := \<lparr> all_types = [passport_type, photo_type, other_type],
                      types_with_expiry = [passport_type] \<rparr>,
         existingDocuments := [stored_other],
         newDocuments := [other_row, photo_row, other_row, empty_row],
         isFormLocked := False \<rparr>"

text \<open>
  The select once its first request (for the empty term) is out and the render after
  it is done, and a page a request may resolve with.
\<close>

definition busy_select :: select_state where
  "busy_select = render (timeout_callback [] ((mounted_select False)\<lparr>timer := None\<rparr>))"

definition alice :: HrEmployee where
  "alice = \<lparr> hr_system_id = 42, fullname_en = ''Alice'', fullname_ar = [], empno = ''E-7'' \<rparr>"

definition page_alice :: ApiHrResponse where
  "page_alice = \<lparr> resp_employees = [alice], resp_hasMore = False \<rparr>"

text \<open>
  Pages of eight employees, enough for the open list to scroll, and a run of the select
  in which the first page is \<open>first\<close>, two scroll events ask for the second page
  before a render, so that the second of the two requests supersedes the first; the
  request that was not cancelled resolves with \<open>second_page\<close> and the cancelled one
  settles with \<open>late\<close>.
\<close>

definition staff :: "int \<Rightarrow> HrEmployee" where
  "staff n =
     \<lparr> hr_system_id = n, fullname_en = ''Employee '' @ toString n, fullname_ar = [],
       empno = ''E-'' @ toString n \<rparr>"

definition staff_page :: "int list \<Rightarrow> bool \<Rightarrow> ApiHrResponse" where
  "staff_page ids further = \<lparr> resp_employees = map staff ids, resp_hasMore = further \<rparr>"

definition first_page :: ApiHrResponse where
  "first_page = staff_page [1, 2, 3, 4, 5, 6, 7, 8] True"

definition other_first_page :: ApiHrResponse where
  "other_first_page = staff_page [21, 22, 23, 24, 25, 26, 27, 28] True"

definition second_page :: ApiHrResponse where
  "second_page = staff_page [9, 10, 11, 12, 13, 14, 15, 16] False"

definition stale_page :: ApiHrResponse where
  "stale_page = staff_page [31, 32, 33, 34, 35, 36, 37, 38] True"

definition scroll_run :: "ApiHrResponse \<Rightarrow> fetch_outcome \<Rightarrow> select_event list" where
  "scroll_run first late =
     [Keystroke ''a'', Elapsed, Settle 0 (Resolved first), Render, ScrollToBottom,
      ScrollToBottom, Settle 2 (Resolved second_page), Settle 1 late]"

text \<open>
  A stored document of the type named \<open>Other\<close> whose own name does not say so, in a
  form with one empty pending row.
\<close>

definition stored_scan :: ExistingDocument where
  "stored_scan =
     \<lparr> ex_system_id = 301, docnumber = 7002, ex_expiry = None, ex_doc_type_id = 9,
       ex_legislation_ids = [], doc_name = ''Scan 12'',
       legislation_names = None \<rparr>"

definition scan_form :: form_state where
  "scan_form = mixed_form\<lparr>existingDocuments := [stored_scan], newDocuments := [empty_row]\<rparr>"

section \<open>Properties of the JavaScript primitives\<close>

lemma digit_cases: "d < 10 \<Longrightarrow> d \<in> {0, 1, 2, 3, 4, 5, 6, 7, 8, 9 :: nat}"
  by auto

lemma isDigit_digit_char: "d < 10 \<Longrightarrow> isDigit (digit_char d)"
  by (drule digit_cases) (auto simp: isDigit_def digit_char_def)

lemma digit_value_digit_char: "d < 10 \<Longrightarrow> digit_value (digit_char d) = d"
  by (drule digit_cases) (auto simp: digit_value_def digit_char_def)

lemma string_of_nat_digits: "\<forall>c \<in> set (string_of_nat n). isDigit c"
  by (induction n rule: string_of_nat.induct)
     (subst string_of_nat.simps, auto simp: isDigit_digit_char)

lemma string_of_nat_nonempty: "string_of_nat n \<noteq> []"
  by (subst string_of_nat.simps) simp

lemma digits_to_nat_append:
  "digits_to_nat acc (xs @ ys) = digits_to_nat (digits_to_nat acc xs) ys"
  by (induction xs arbitrary: acc) auto

lemma digits_to_nat_string_of_nat: "digits_to_nat 0 (string_of_nat n) = n"
proof (induction n rule: string_of_nat.induct)
  case (1 n)
  show ?case
  proof (cases "n < 10")
    case True
    then show ?thesis
      by (subst string_of_nat.simps) (simp add: digit_value_digit_char)
  next
    case False
    with 1 have "digits_to_nat 0 (string_of_nat (n div 10)) = n div 10"
      by simp
    with False show ?thesis
      by (subst string_of_nat.simps) (simp add: digits_to_nat_append digit_value_digit_char)
  qed
qed

lemma takeWhile_all: "\<forall>c \<in> set xs. P c \<Longrightarrow> takeWhile P xs = xs"
  by (induction xs) auto

lemma isDigit_not_special:
  "isDigit c \<Longrightarrow> \<not> isWhiteSpace c \<and> c \<noteq> CHR ''-'' \<and> c \<noteq> CHR ''+''"
  by (auto simp: isDigit_def isWhiteSpace_def)

lemma parseInt_digits:
  assumes "s \<noteq> []" and "\<forall>c \<in> set s. isDigit c"
  shows "parseInt s = Some (int (digits_to_nat 0 s))"
proof -
  from assms(1) obtain c cs where s: "s = c # cs"
    by (cases s) auto
  with assms(2) have c: "\<not> isWhiteSpace c" "c \<noteq> CHR ''-''" "c \<noteq> CHR ''+''"
    using isDigit_not_special by auto
  have tw: "takeWhile isDigit (c # cs) = c # cs"
    using assms(2) s by (intro takeWhile_all) simp
  show ?thesis
    unfolding parseInt_def s using c by (simp add: Let_def tw del: takeWhile.simps)
qed

lemma parseInt_string_of_nat: "parseInt (string_of_nat n) = Some (int n)"
  using parseInt_digits [OF string_of_nat_nonempty string_of_nat_digits, of n]
  by (simp add: digits_to_nat_string_of_nat)

text \<open>Parsing the decimal string of an integer gives the integer back.\<close>

lemma parseInt_toString: "parseInt (toString n) = Some n"
proof (cases "n < 0")
  case False
  then show ?thesis
    by (simp add: toString_def parseInt_string_of_nat)
next
  case True
  have tw: "takeWhile isDigit (string_of_nat (nat (- n))) = string_of_nat (nat (- n))"
    using string_of_nat_digits by (intro takeWhile_all)
  have ws: "\<not> isWhiteSpace CHR ''-''"
    by (simp add: isWhiteSpace_def)
  from True show ?thesis
    using ws string_of_nat_nonempty [of "nat (- n)"]
    by (simp add: toString_def parseInt_def Let_def tw digits_to_nat_string_of_nat)
qed

lemma toString_inject:
  assumes "toString a = toString b"
  shows "a = b"
proof -
  have "Some a = parseInt (toString a)"
    by (simp add: parseInt_toString)
  also have "\<dots> = parseInt (toString b)"
    by (simp only: assms)
  also have "\<dots> = Some b"
    by (simp add: parseInt_toString)
  finally show ?thesis
    by simp
qed

lemma toString_nonempty: "toString n \<noteq> []"
  by (simp add: toString_def string_of_nat_nonempty)

section \<open>Selecting the employee\<close>

text \<open>
  C2, as the code has it. With an empty id \<open>handleEmployeeSelect\<close> locks the form and
  changes nothing else: the fields seeded earlier keep their values. With a non-empty
  id and a profile that was fetched, every field of the form data is seeded from the
  profile (hire date and status empty) and the form is unlocked.
\<close>

theorem handleEmployeeSelect_rule:
  "handleEmployeeSelect [] fetched s = s\<lparr>isFormLocked := True\<rparr>
   \<and> (employeeId \<noteq> [] \<longrightarrow>
        \<not> isFormLocked (handleEmployeeSelect employeeId (Some details) s)
        \<and> formData (handleEmployeeSelect employeeId (Some details) s) =
            \<lparr> employee_id = d_system_id details,
              name_en = or_empty (d_fullname_en details),
              name_ar = or_empty (d_fullname_ar details),
              employeeNumber = or_empty (d_empno details),
              hireDate = [],
              jobTitle = or_empty (d_job_name details),
              nationality = or_empty (d_nationality details),
              email = or_empty (d_email details),
              phone = or_empty (d_mobile details),
              manager = or_empty (d_supervisorname details),
              department = or_empty (d_department details),
              fd_section = or_empty (d_section details),
              status_id = [] \<rparr>)"
  by (simp add: handleEmployeeSelect_def)

theorem handleEmployeeSelect_rule_witness:
  "\<not> isFormLocked seeded_form
   \<and> name_en (formData seeded_form) = ''Alice''
   \<and> employee_id (formData seeded_form) = Num 42
   \<and> isFormLocked (handleEmployeeSelect [] None seeded_form)
   \<and> formData (handleEmployeeSelect [] None seeded_form) = formData seeded_form"
  using handleEmployeeSelect_rule [where s = "initial_form_state None False"
      and employeeId = "''42''" and details = profile_42]
    handleEmployeeSelect_rule [where s = seeded_form and fetched = None]
  by (simp add: seeded_form_def profile_42_def)

text \<open>
  C2 as the specification words it fails: clearing the selection of the seeded form
  locks it, and the English name is still the one that was fetched.
\<close>

theorem clearing_keeps_seeded_fields:
  "isFormLocked (handleEmployeeSelect [] None seeded_form)
   \<and> name_en (formData (handleEmployeeSelect [] None seeded_form)) = ''Alice''
   \<and> formData (handleEmployeeSelect [] None seeded_form) \<noteq> initial_formData"
  by (simp add: handleEmployeeSelect_def seeded_form_def profile_42_def initial_formData_def
        initial_form_state_def)

section \<open>Toggling a legislation\<close>

lemma set_toggled:
  "set (toggled x ids) = (if x \<in> set ids then set ids - {x} else insert x (set ids))"
  by (auto simp: toggled_def)

lemma set_toggled_twice: "set (toggled x (toggled x ids)) = set ids"
  by (auto simp: set_toggled)

lemma toggle_new_row:
  assumes "index < length (newDocuments s)"
  shows "handleNewDocumentChange index (ChangeLegislation x) s =
           Returned (s\<lparr>error := [],
                       newDocuments := (newDocuments s)
                         [index := (newDocuments s ! index)
                            \<lparr>legislation_ids := toggled x (legislation_ids (newDocuments s ! index))\<rparr>]\<rparr>)"
  using assms by (simp add: update_row_def)

lemma toggle_existing_rows:
  "map (\<lambda>doc. set (ex_legislation_ids doc))
      (existingDocuments (handleExistingDocLegislationChange d x s)) =
   map (\<lambda>doc. if ex_system_id doc = d
               then (if x \<in> set (ex_legislation_ids doc) then set (ex_legislation_ids doc) - {x}
                     else insert x (set (ex_legislation_ids doc)))
               else set (ex_legislation_ids doc))
      (existingDocuments s)"
  by (simp add: handleExistingDocLegislationChange_def set_toggled)

text \<open>
  C8. One toggle of a legislation id on a pending row (through
  \<open>handleNewDocumentChange\<close>) or on a stored document (through
  \<open>handleExistingDocLegislationChange\<close>) adds the id to the row's set of legislation
  ids when it is absent and removes it when it is present; two toggles with the same id
  give every row the set of ids it had.
\<close>

theorem legislation_toggle_round_trip:
  "(index < length (newDocuments s) \<longrightarrow>
      (\<exists>s1 s2.
          handleNewDocumentChange index (ChangeLegislation x) s = Returned s1
        \<and> handleNewDocumentChange index (ChangeLegislation x) s1 = Returned s2
        \<and> set (legislation_ids (newDocuments s1 ! index)) =
            (if x \<in> set (legislation_ids (newDocuments s ! index))
             then set (legislation_ids (newDocuments s ! index)) - {x}
             else insert x (set (legislation_ids (newDocuments s ! index))))
        \<and> map (\<lambda>doc. set (legislation_ids doc)) (newDocuments s2) =
            map (\<lambda>doc. set (legislation_ids doc)) (newDocuments s)))
   \<and> map (\<lambda>doc. set (ex_legislation_ids doc))
        (existingDocuments (handleExistingDocLegislationChange d y s)) =
      map (\<lambda>doc. if ex_system_id doc = d
                  then (if y \<in> set (ex_legislation_ids doc)
                        then set (ex_legislation_ids doc) - {y}
                        else insert y (set (ex_legislation_ids doc)))
                  else set (ex_legislation_ids doc))
        (existingDocuments s)
   \<and> map (\<lambda>doc. set (ex_legislation_ids doc))
        (existingDocuments
           (handleExistingDocLegislationChange d y (handleExistingDocLegislationChange d y s))) =
      map (\<lambda>doc. set (ex_legislation_ids doc)) (existingDocuments s)"
proof (intro conjI impI)
  assume i: "index < length (newDocuments s)"
  let ?row = "newDocuments s ! index"
  let ?s1 = "s\<lparr>error := [],
                newDocuments := (newDocuments s)
                  [index := ?row\<lparr>legislation_ids := toggled x (legislation_ids ?row)\<rparr>]\<rparr>"
  let ?row1 = "newDocuments ?s1 ! index"
  let ?s2 = "?s1\<lparr>error := [],
                  newDocuments := (newDocuments ?s1)
                    [index := ?row1\<lparr>legislation_ids := toggled x (legislation_ids ?row1)\<rparr>]\<rparr>"
  have 1: "handleNewDocumentChange index (ChangeLegislation x) s = Returned ?s1"
    using i by (rule toggle_new_row)
  have i1: "index < length (newDocuments ?s1)"
    using i by simp
  have 2: "handleNewDocumentChange index (ChangeLegislation x) ?s1 = Returned ?s2"
    using i1 by (rule toggle_new_row)
  have 3: "set (legislation_ids (newDocuments ?s1 ! index)) =
            (if x \<in> set (legislation_ids ?row) then set (legislation_ids ?row) - {x}
             else insert x (set (legislation_ids ?row)))"
    using i by (simp add: set_toggled)
  have 4: "map (\<lambda>doc. set (legislation_ids doc)) (newDocuments ?s2) =
            map (\<lambda>doc. set (legislation_ids doc)) (newDocuments s)"
    using i by (auto simp: list_eq_iff_nth_eq nth_list_update set_toggled_twice)
  from 1 2 3 4 show "\<exists>s1 s2.
          handleNewDocumentChange index (ChangeLegislation x) s = Returned s1
        \<and> handleNewDocumentChange index (ChangeLegislation x) s1 = Returned s2
        \<and> set (legislation_ids (newDocuments s1 ! index)) =
            (if x \<in> set (legislation_ids (newDocuments s ! index))
             then set (legislation_ids (newDocuments s ! index)) - {x}
             else insert x (set (legislation_ids (newDocuments s ! index))))
        \<and> map (\<lambda>doc. set (legislation_ids doc)) (newDocuments s2) =
            map (\<lambda>doc. set (legislation_ids doc)) (newDocuments s)"
    by blast
next
  show "map (\<lambda>doc. set (ex_legislation_ids doc))
        (existingDocuments (handleExistingDocLegislationChange d y s)) =
      map (\<lambda>doc. if ex_system_id doc = d
                  then (if y \<in> set (ex_legislation_ids doc)
                        then set (ex_legislation_ids doc) - {y}
                        else insert y (set (ex_legislation_ids doc)))
                  else set (ex_legislation_ids doc))
        (existingDocuments s)"
    by (rule toggle_existing_rows)
next
  show "map (\<lambda>doc. set (ex_legislation_ids doc))
        (existingDocuments
           (handleExistingDocLegislationChange d y (handleExistingDocLegislationChange d y s))) =
      map (\<lambda>doc. set (ex_legislation_ids doc)) (existingDocuments s)"
    by (auto simp: handleExistingDocLegislationChange_def set_toggled_twice)
qed

theorem legislation_toggle_round_trip_witness:
  "(0::nat) < length (newDocuments warrant_form)
   \<and> (\<exists>s1 s2.
          handleNewDocumentChange 0 (ChangeLegislation ''8'') warrant_form = Returned s1
        \<and> handleNewDocumentChange 0 (ChangeLegislation ''8'') s1 = Returned s2
        \<and> set (legislation_ids (newDocuments s1 ! 0)) = {''3''}
        \<and> map (\<lambda>doc. set (legislation_ids doc)) (newDocuments s2) = [{''3'', ''8''}])
   \<and> map (\<lambda>doc. set (ex_legislation_ids doc))
        (existingDocuments (handleExistingDocLegislationChange 100 4 warrant_form)) = [{3, 4, 8}]"
proof -
  have len: "(0::nat) < length (newDocuments warrant_form)"
    by (simp add: warrant_form_def)
  have row: "legislation_ids (newDocuments warrant_form ! 0) = [''3'', ''8'']"
    by (simp add: warrant_form_def warrant_row_def)
  have rows: "map (\<lambda>doc. set (legislation_ids doc)) (newDocuments warrant_form) = [{''3'', ''8''}]"
    by (auto simp: warrant_form_def warrant_row_def)
  have ex: "existingDocuments warrant_form = [stored_warrant]"
    by (simp add: warrant_form_def)
  from legislation_toggle_round_trip [of 0 warrant_form "''8''" 100 4] len
  show ?thesis
    unfolding row rows ex by (auto simp: stored_warrant_def)
qed

section \<open>What the proxy route answers\<close>

text \<open>
  A response that \<open>fetch\<close> returns has a status from 200 to 599 and no body when
  its status forbids one, so the \<open>NextResponse\<close> constructor accepts it; whatever else
  the \<open>try\<close> block throws is the \<open>Throws\<close> case.
\<close>

lemma proxy_not_configured:
  "BACKEND_URL = None \<or> BACKEND_URL = Some [] \<Longrightarrow>
   proxyHandler BACKEND_URL upstream req =
     (json_error ''Backend API URL is not configured on the server.'' 500, [])"
  by (auto simp: proxyHandler_def)

text \<open>
  C9. Without \<open>BACKEND_URL\<close> the proxy answers 500 with its fixed error and calls
  no upstream. With it, the proxy calls the upstream once, at the configured origin
  followed by the path and the query string, with the method and the headers of the
  request; when that call throws it answers 502 with its fixed error, and otherwise
  its response has the status, the status text, the headers and the body of the
  upstream's response.
\<close>

theorem proxyHandler_rule:
  "(BACKEND_URL = None \<or> BACKEND_URL = Some [] \<longrightarrow>
      status (fst (proxyHandler BACKEND_URL upstream req)) = 500
    \<and> response_body (fst (proxyHandler BACKEND_URL upstream req)) =
        JsonError ''Backend API URL is not configured on the server.''
    \<and> snd (proxyHandler BACKEND_URL upstream req) = [])
   \<and> (backend \<noteq> [] \<longrightarrow>
        (\<exists>call.
            snd (proxyHandler (Some backend) upstream req) = [call]
          \<and> call_url call = backend @ ''/api/'' @ join_slash (params_proxy req) @ req_search req
          \<and> call_method call = req_method req
          \<and> call_headers call = req_headers req
          \<and> (upstream call = Throws \<longrightarrow>
                status (fst (proxyHandler (Some backend) upstream req)) = 502
              \<and> response_body (fst (proxyHandler (Some backend) upstream req)) =
                  JsonError ''Error forwarding request to the backend.'')
          \<and> (\<forall>r. upstream call = Responds r \<longrightarrow>
                status (fst (proxyHandler (Some backend) upstream req)) = up_status r
              \<and> statusText (fst (proxyHandler (Some backend) upstream req)) = up_statusText r
              \<and> headers (fst (proxyHandler (Some backend) upstream req)) = up_headers r
              \<and> response_body (fst (proxyHandler (Some backend) upstream req)) =
                  Stream (up_body r))))"
proof (intro conjI impI)
  assume "BACKEND_URL = None \<or> BACKEND_URL = Some []"
  then have "proxyHandler BACKEND_URL upstream req =
      (json_error ''Backend API URL is not configured on the server.'' 500, [])"
    by (rule proxy_not_configured)
  then show "status (fst (proxyHandler BACKEND_URL upstream req)) = 500"
    and "response_body (fst (proxyHandler BACKEND_URL upstream req)) =
        JsonError ''Backend API URL is not configured on the server.''"
    and "snd (proxyHandler BACKEND_URL upstream req) = []"
    by (simp_all add: json_error_def)
next
  assume b: "backend \<noteq> []"
  let ?call = "\<lparr> call_url = backend @ ''/api/'' @ join_slash (params_proxy req) @ req_search req,
                 call_method = req_method req, call_headers = req_headers req,
                 call_body = (if req_method req \<noteq> ''GET'' \<and> req_method req \<noteq> ''HEAD''
                              then req_body req else None) \<rparr>"
  show "\<exists>call.
            snd (proxyHandler (Some backend) upstream req) = [call]
          \<and> call_url call = backend @ ''/api/'' @ join_slash (params_proxy req) @ req_search req
          \<and> call_method call = req_method req
          \<and> call_headers call = req_headers req
          \<and> (upstream call = Throws \<longrightarrow>
                status (fst (proxyHandler (Some backend) upstream req)) = 502
              \<and> response_body (fst (proxyHandler (Some backend) upstream req)) =
                  JsonError ''Error forwarding request to the backend.'')
          \<and> (\<forall>r. upstream call = Responds r \<longrightarrow>
                status (fst (proxyHandler (Some backend) upstream req)) = up_status r
              \<and> statusText (fst (proxyHandler (Some backend) upstream req)) = up_statusText r
              \<and> headers (fst (proxyHandler (Some backend) upstream req)) = up_headers r
              \<and> response_body (fst (proxyHandler (Some backend) upstream req)) =
                  Stream (up_body r))"
    using b
    by (intro exI [of _ ?call])
       (cases "upstream ?call"; simp add: proxyHandler_def Let_def json_error_def)
qed

theorem proxyHandler_rule_witness:
  "status (fst (proxyHandler None (\<lambda>call. Responds answer_404) get_statuses)) = 500
   \<and> snd (proxyHandler None (\<lambda>call. Responds answer_404) get_statuses) = []
   \<and> status (fst (proxyHandler (Some ''http://edms:5000'') (\<lambda>call. Throws) get_statuses)) = 502
   \<and> map call_url (snd (proxyHandler (Some ''http://edms:5000'') (\<lambda>call. Throws) get_statuses)) =
       [''http://edms:5000/api/statuses?lang=ar'']
   \<and> status (fst (proxyHandler (Some ''http://edms:5000'') (\<lambda>call. Responds answer_404) get_statuses)) = 404
   \<and> response_body (fst (proxyHandler (Some ''http://edms:5000'') (\<lambda>call. Responds answer_404) get_statuses)) =
       Stream (Some ''no such record'')"
  using proxyHandler_rule [of None "\<lambda>call. Responds answer_404" get_statuses "''http://edms:5000''"]
    proxyHandler_rule [of "Some ''http://edms:5000''" "\<lambda>call. Throws" get_statuses "''http://edms:5000''"]
  by (auto simp: get_statuses_def answer_404_def)

section \<open>Removing a stored document\<close>

lemma derived_status_effect_documents:
  "existingDocuments (derived_status_effect s) = existingDocuments s
   \<and> deletedDocIds (derived_status_effect s) = deletedDocIds s"
  by (simp add: derived_status_effect_def Let_def split: option.splits)







lemma listed_ids_cong:
  "existingDocuments s' = existingDocuments s \<Longrightarrow> listed_ids s' = listed_ids s"
  by (simp add: listed_ids_def)










section \<open>Validation before a submission\<close>

lemma parseInt_empty: "parseInt [] = None"
  by (simp add: parseInt_def)

lemma expiry_missing_type_chosen: "expiry_missing dts doc \<Longrightarrow> doc_type_id doc \<noteq> []"
  by (auto simp: expiry_missing_def parseInt_empty)

text \<open>The loop reports the first row that lacks a required expiry date, if there is one.\<close>

lemma validate_newDocuments_first:
  "validate_newDocuments dts docs =
     map_option
       (\<lambda>doc. expiry_message (find (\<lambda>t. toString (system_id t) = doc_type_id doc) (all_types dts)))
       (find (expiry_missing dts) docs)"
proof (induction docs)
  case Nil
  show ?case by simp
next
  case (Cons doc docs)
  show ?case
  proof (cases "expiry_missing dts doc")
    case True
    then show ?thesis
      using expiry_missing_type_chosen [OF True] by (simp add: expiry_missing_def)
  next
    case False
    then have "validate_newDocuments dts (doc # docs) = validate_newDocuments dts docs"
      by (auto simp: expiry_missing_def)
    with False Cons.IH show ?thesis
      by simp
  qed
qed

lemma handleSubmit_editor:
  assumes "\<not> isViewer s"
  shows "handleSubmit s =
     (if \<not> truthy (employee_id (formData s))
      then ValidationFailed (s\<lparr>error := ''An employee must be selected.''\<rparr>)
      else case find (expiry_missing (docTypes s)) (newDocuments s) of
             None \<Rightarrow> RequestIssued (s\<lparr>error := [], isSubmitting := True\<rparr>) (submit_request s)
           | Some doc \<Rightarrow>
               ValidationFailed
                 (s\<lparr>error := expiry_message
                      (find (\<lambda>t. toString (system_id t) = doc_type_id doc)
                         (all_types (docTypes s)))\<rparr>))"
  using assms
  by (simp add: handleSubmit_def validate_newDocuments_first split: option.splits)

lemma find_first_index:
  assumes "i < length xs" and "P (xs ! i)" and "\<forall>j<i. \<not> P (xs ! j)"
  shows "find P xs = Some (xs ! i)"
  using assms by (auto simp: find_Some_iff)

text \<open>The validation in a session that may edit.\<close>

lemma handleSubmit_editor_validation:
  "\<not> isViewer s \<longrightarrow>
     (\<not> truthy (employee_id (formData s)) \<longrightarrow>
        handleSubmit s = ValidationFailed (s\<lparr>error := ''An employee must be selected.''\<rparr>))
   \<and> (truthy (employee_id (formData s)) \<longrightarrow>
        (\<forall>i. i < length (newDocuments s)
             \<and> expiry_missing (docTypes s) (newDocuments s ! i)
             \<and> (\<forall>j<i. \<not> expiry_missing (docTypes s) (newDocuments s ! j)) \<longrightarrow>
             handleSubmit s =
               ValidationFailed
                 (s\<lparr>error := expiry_message
                      (find (\<lambda>t. toString (system_id t) = doc_type_id (newDocuments s ! i))
                         (all_types (docTypes s)))\<rparr>)))
   \<and> expiry_message (Some ty) =
        ''Expiry date is required for document type '' @ [CHR 0x22] @ name ty @ [CHR 0x22] @ ''.''
   \<and> ((\<exists>s' r. handleSubmit s = RequestIssued s' r) \<longleftrightarrow>
        truthy (employee_id (formData s))
        \<and> (\<forall>doc \<in> set (newDocuments s). \<not> expiry_missing (docTypes s) doc))
   \<and> (\<forall>doc. \<not> set_has (expiryDocTypeIds (docTypes s)) (parseInt (doc_type_id doc)) \<longrightarrow>
          \<not> expiry_missing (docTypes s) doc)"
proof (intro impI conjI allI)
  assume v: "\<not> isViewer s"
  {
    assume "\<not> truthy (employee_id (formData s))"
    then show "handleSubmit s = ValidationFailed (s\<lparr>error := ''An employee must be selected.''\<rparr>)"
      by (simp add: handleSubmit_editor [OF v])
  }
  {
    fix i
    assume t: "truthy (employee_id (formData s))"
      and i: "i < length (newDocuments s)
             \<and> expiry_missing (docTypes s) (newDocuments s ! i)
             \<and> (\<forall>j<i. \<not> expiry_missing (docTypes s) (newDocuments s ! j))"
    then have "find (expiry_missing (docTypes s)) (newDocuments s) = Some (newDocuments s ! i)"
      by (intro find_first_index) auto
    with t show "handleSubmit s =
               ValidationFailed
                 (s\<lparr>error := expiry_message
                      (find (\<lambda>t. toString (system_id t) = doc_type_id (newDocuments s ! i))
                         (all_types (docTypes s)))\<rparr>)"
      by (simp add: handleSubmit_editor [OF v])
  }
  show "expiry_message (Some ty) =
        ''Expiry date is required for document type '' @ [CHR 0x22] @ name ty @ [CHR 0x22] @ ''.''"
    by (simp add: expiry_message_def)
  show "(\<exists>s' r. handleSubmit s = RequestIssued s' r) \<longleftrightarrow>
        truthy (employee_id (formData s))
        \<and> (\<forall>doc \<in> set (newDocuments s). \<not> expiry_missing (docTypes s) doc)"
  proof (cases "find (expiry_missing (docTypes s)) (newDocuments s)")
    case None
    then have "\<forall>doc \<in> set (newDocuments s). \<not> expiry_missing (docTypes s) doc"
      by (simp add: find_None_iff)
    with None show ?thesis
      by (simp add: handleSubmit_editor [OF v])
  next
    case (Some doc)
    then have "doc \<in> set (newDocuments s)" "expiry_missing (docTypes s) doc"
      by (auto simp: find_Some_iff)
    then have "\<not> (\<forall>doc \<in> set (newDocuments s). \<not> expiry_missing (docTypes s) doc)"
      by blast
    with Some show ?thesis
      by (simp add: handleSubmit_editor [OF v])
  qed
  {
    fix doc :: NewDocument
    assume "\<not> set_has (expiryDocTypeIds (docTypes s)) (parseInt (doc_type_id doc))"
    then show "\<not> expiry_missing (docTypes s) doc"
      by (simp add: expiry_missing_def)
  }
qed

text \<open>
  C5, as the code has it. For a viewer \<open>handleSubmit\<close> returns at once: nothing is
  validated, no message is set and no request is issued. In a session that may edit,
  without a selected employee the submission fails with the message of the missing
  employee, whatever the rows are. With one, the first pending row that lacks a
  required expiry date makes it fail with the message of the expiry date, which quotes
  the name of the first catalog type whose id is the row's type id, and the word
  \<open>undefined\<close> when the catalog has no such type. No request is issued in either
  case, and a request is issued exactly when an employee is selected and no row lacks a
  required expiry date; a row whose type is not expiry-tracked never lacks one.
\<close>

theorem handleSubmit_validation:
  "(isViewer s \<longrightarrow> handleSubmit s = Ignored)
   \<and> expiry_message None =
        ''Expiry date is required for document type '' @ [CHR 0x22] @ ''undefined'' @ [CHR 0x22] @ ''.''
   \<and> (\<not> isViewer s \<longrightarrow>
     (\<not> truthy (employee_id (formData s)) \<longrightarrow>
        handleSubmit s = ValidationFailed (s\<lparr>error := ''An employee must be selected.''\<rparr>))
   \<and> (truthy (employee_id (formData s)) \<longrightarrow>
        (\<forall>i. i < length (newDocuments s)
             \<and> expiry_missing (docTypes s) (newDocuments s ! i)
             \<and> (\<forall>j<i. \<not> expiry_missing (docTypes s) (newDocuments s ! j)) \<longrightarrow>
             handleSubmit s =
               ValidationFailed
                 (s\<lparr>error := expiry_message
                      (find (\<lambda>t. toString (system_id t) = doc_type_id (newDocuments s ! i))
                         (all_types (docTypes s)))\<rparr>)))
   \<and> expiry_message (Some ty) =
        ''Expiry date is required for document type '' @ [CHR 0x22] @ name ty @ [CHR 0x22] @ ''.''
   \<and> ((\<exists>s' r. handleSubmit s = RequestIssued s' r) \<longleftrightarrow>
        truthy (employee_id (formData s))
        \<and> (\<forall>doc \<in> set (newDocuments s). \<not> expiry_missing (docTypes s) doc))
   \<and> (\<forall>doc. \<not> set_has (expiryDocTypeIds (docTypes s)) (parseInt (doc_type_id doc)) \<longrightarrow>
          \<not> expiry_missing (docTypes s) doc))"
proof (intro conjI)
  show "isViewer s \<longrightarrow> handleSubmit s = Ignored"
    by (simp add: handleSubmit_def)
  show "expiry_message None =
        ''Expiry date is required for document type '' @ [CHR 0x22] @ ''undefined'' @ [CHR 0x22] @ ''.''"
    by (simp add: expiry_message_def)
  show "\<not> isViewer s \<longrightarrow>
     (\<not> truthy (employee_id (formData s)) \<longrightarrow>
        handleSubmit s = ValidationFailed (s\<lparr>error := ''An employee must be selected.''\<rparr>))
   \<and> (truthy (employee_id (formData s)) \<longrightarrow>
        (\<forall>i. i < length (newDocuments s)
             \<and> expiry_missing (docTypes s) (newDocuments s ! i)
             \<and> (\<forall>j<i. \<not> expiry_missing (docTypes s) (newDocuments s ! j)) \<longrightarrow>
             handleSubmit s =
               ValidationFailed
                 (s\<lparr>error := expiry_message
                      (find (\<lambda>t. toString (system_id t) = doc_type_id (newDocuments s ! i))
                         (all_types (docTypes s)))\<rparr>)))
   \<and> expiry_message (Some ty) =
        ''Expiry date is required for document type '' @ [CHR 0x22] @ name ty @ [CHR 0x22] @ ''.''
   \<and> ((\<exists>s' r. handleSubmit s = RequestIssued s' r) \<longleftrightarrow>
        truthy (employee_id (formData s))
        \<and> (\<forall>doc \<in> set (newDocuments s). \<not> expiry_missing (docTypes s) doc))
   \<and> (\<forall>doc. \<not> set_has (expiryDocTypeIds (docTypes s)) (parseInt (doc_type_id doc)) \<longrightarrow>
          \<not> expiry_missing (docTypes s) doc)"
    by (rule handleSubmit_editor_validation)
qed

lemma form_with_fields:
  "\<not> isViewer (form_with rows)" "truthy (employee_id (formData (form_with rows)))"
  "newDocuments (form_with rows) = rows" "docTypes (form_with rows) = two_types"
  by (simp_all add: form_with_def seeded_form_def handleEmployeeSelect_def profile_42_def
        initial_form_state_def)

lemma parseInt_examples: "parseInt ''1'' = Some 1" "parseInt ''2'' = Some 2"
  by (simp_all add: parseInt_def isWhiteSpace_def isDigit_def digit_value_def)

lemma toString_examples: "toString 0 = ''0''" "toString 1 = ''1''" "toString 2 = ''2''"
  by (simp_all add: toString_def string_of_nat.simps digit_char_def)

lemma example_rows_missing:
  "expiry_missing two_types passport_row" "\<not> expiry_missing two_types photo_row"
  by (simp_all add: expiry_missing_def two_types_def passport_row_def photo_row_def
        expiryDocTypeIds_def passport_type_def parseInt_examples)

theorem handleSubmit_validation_witness:
  "isViewer viewer_form \<and> handleSubmit viewer_form = Ignored
   \<and> \<not> isViewer (form_with [photo_row, passport_row])
   \<and> truthy (employee_id (formData (form_with [photo_row, passport_row])))
   \<and> handleSubmit (form_with [photo_row, passport_row]) =
       ValidationFailed
         ((form_with [photo_row, passport_row])
            \<lparr>error := ''Expiry date is required for document type '' @ [CHR 0x22] @ ''Passport''
                        @ [CHR 0x22] @ ''.''\<rparr>)
   \<and> (\<exists>s' r. handleSubmit (form_with [photo_row]) = RequestIssued s' r)
   \<and> handleSubmit ((form_with [passport_row])\<lparr>formData := initial_formData\<rparr>) =
       ValidationFailed
         ((form_with [passport_row])
            \<lparr>formData := initial_formData, error := ''An employee must be selected.''\<rparr>)"
proof -
  let ?s = "form_with [photo_row, passport_row]"
  let ?u = "(form_with [passport_row])\<lparr>formData := initial_formData\<rparr>"
  have v: "\<not> isViewer ?s" and t: "truthy (employee_id (formData ?s))"
    by (simp_all add: form_with_fields)
  have 1: "(1::nat) < length (newDocuments ?s)
           \<and> expiry_missing (docTypes ?s) (newDocuments ?s ! 1)
           \<and> (\<forall>j<1. \<not> expiry_missing (docTypes ?s) (newDocuments ?s ! j))"
    by (simp add: form_with_fields example_rows_missing)
  have nm: "find (\<lambda>t. toString (system_id t) = doc_type_id (newDocuments ?s ! 1))
              (all_types (docTypes ?s)) = Some passport_type"
    by (simp add: form_with_fields two_types_def passport_type_def photo_type_def
          passport_row_def toString_examples)
  have viewer: "isViewer viewer_form"
    by (simp add: viewer_form_def initial_form_state_def)
  note ignored = handleSubmit_validation [of viewer_form passport_type, THEN conjunct1, THEN mp,
      OF viewer]
  note rule = handleSubmit_validation [of ?s passport_type, THEN conjunct2, THEN conjunct2,
      THEN mp, OF v]
  note failed = rule [THEN conjunct2, THEN conjunct1, THEN mp, OF t, THEN spec, of 1, THEN mp, OF 1]
  have a: "handleSubmit ?s =
       ValidationFailed
         (?s\<lparr>error := ''Expiry date is required for document type '' @ [CHR 0x22] @ ''Passport''
                        @ [CHR 0x22] @ ''.''\<rparr>)"
    unfolding failed nm by (simp add: expiry_message_def passport_type_def)
  have v2: "\<not> isViewer (form_with [photo_row])"
    by (simp add: form_with_fields)
  note issued = handleSubmit_validation [of "form_with [photo_row]" photo_type,
      THEN conjunct2, THEN conjunct2, THEN mp, OF v2,
      THEN conjunct2, THEN conjunct2, THEN conjunct2, THEN conjunct1]
  have b: "\<exists>s' r. handleSubmit (form_with [photo_row]) = RequestIssued s' r"
    unfolding issued by (simp add: form_with_fields example_rows_missing)
  have v3: "\<not> isViewer ?u" and t3: "\<not> truthy (employee_id (formData ?u))"
    by (simp_all add: form_with_fields initial_formData_def)
  note unselected = handleSubmit_validation [of ?u passport_type,
      THEN conjunct2, THEN conjunct2, THEN mp, OF v3, THEN conjunct1, THEN mp, OF t3]
  have c: "handleSubmit ?u = ValidationFailed (?u\<lparr>error := ''An employee must be selected.''\<rparr>)"
    by (rule unselected)
  from viewer ignored a b c v t show ?thesis
    by simp
qed

text \<open>
  C5 as the specification words it fails for a viewer: no employee is selected in this
  form, and the submission neither fails with a message nor does anything else.
\<close>

theorem viewer_submit_is_silent:
  "\<not> truthy (employee_id (formData viewer_form))
   \<and> handleSubmit viewer_form = Ignored
   \<and> error viewer_form = []"
  by (simp add: handleSubmit_def viewer_form_def initial_form_state_def initial_formData_def)

section \<open>The pending rows in the multipart body\<close>

lemma digits_then_bracket:
  assumes "\<forall>c \<in> set xs. isDigit c" and "\<forall>c \<in> set ys. isDigit c"
    and "xs @ CHR '']'' # r1 = ys @ CHR '']'' # r2"
  shows "xs = ys \<and> r1 = r2"
proof -
  have nd: "\<not> isDigit CHR '']''"
    by (simp add: isDigit_def)
  have "takeWhile isDigit (xs @ CHR '']'' # r1) = xs" "takeWhile isDigit (ys @ CHR '']'' # r2) = ys"
    using assms(1,2) nd by (simp_all add: takeWhile_append2)
  with assms(3) have "xs = ys"
    by simp
  with assms(3) show ?thesis
    by simp
qed

lemma toString_index_digits: "\<forall>c \<in> set (toString (int i)). isDigit c"
  by (simp add: toString_def string_of_nat_digits)

lemma new_document_key_inject:
  assumes "new_document_key i f = new_document_key j g"
  shows "i = j \<and> f = g"
proof -
  from assms have "toString (int i) @ CHR '']'' # (CHR ''['' # f @ '']'')
                 = toString (int j) @ CHR '']'' # (CHR ''['' # g @ '']'')"
    by (simp add: new_document_key_def)
  then have "toString (int i) = toString (int j) \<and> CHR ''['' # f @ '']'' = CHR ''['' # g @ '']''"
    using toString_index_digits by (intro digits_then_bracket) auto
  then show ?thesis
    using toString_inject [of "int i" "int j"] by simp
qed

lemma file_entry_of_row:
  "(new_document_key n ''file'', FileValue f) \<in> set (newDocument_entries i doc)
   \<longleftrightarrow> n = i \<and> nd_file doc = Some f \<and> doc_type_id doc \<noteq> []"
  by (auto simp: newDocument_entries_def dest: new_document_key_inject split: option.splits)

lemma file_entry_of_rows:
  "(new_document_key n ''file'', FileValue f) \<in> set (forEach_newDocuments k docs)
   \<longleftrightarrow> k \<le> n \<and> n - k < length docs \<and> nd_file (docs ! (n - k)) = Some f
       \<and> doc_type_id (docs ! (n - k)) \<noteq> []"
proof (induction docs arbitrary: k)
  case Nil
  show ?case by simp
next
  case (Cons doc docs)
  show ?case
  proof (cases "n = k")
    case True
    have "(new_document_key n ''file'', FileValue f) \<notin> set (forEach_newDocuments (Suc k) docs)"
      using Cons.IH [of "Suc k"] True by simp
    with True show ?thesis
      by (simp add: file_entry_of_row)
  next
    case False
    then have "(new_document_key n ''file'', FileValue f) \<in> set (forEach_newDocuments k (doc # docs))
               \<longleftrightarrow> (new_document_key n ''file'', FileValue f) \<in> set (forEach_newDocuments (Suc k) docs)"
      by (simp add: file_entry_of_row)
    also have "\<dots> \<longleftrightarrow> Suc k \<le> n \<and> n - Suc k < length docs \<and> nd_file (docs ! (n - Suc k)) = Some f
       \<and> doc_type_id (docs ! (n - Suc k)) \<noteq> []"
      by (rule Cons.IH)
    also have "\<dots> \<longleftrightarrow> k \<le> n \<and> n - k < length (doc # docs)
       \<and> nd_file ((doc # docs) ! (n - k)) = Some f \<and> doc_type_id ((doc # docs) ! (n - k)) \<noteq> []"
    proof (cases "k < n")
      case True
      then obtain m where m: "n - k = Suc m" "n - Suc k = m"
        by (cases "n - k") auto
      with True show ?thesis
        by auto
    next
      case False
      with \<open>n \<noteq> k\<close> show ?thesis
        by auto
    qed
    finally show ?thesis .
  qed
qed

text \<open>Every entry the loop appends comes from a row with a file and a type, under that row's position.\<close>

lemma entries_of_rows:
  "(key, v) \<in> set (forEach_newDocuments k docs) \<Longrightarrow>
   \<exists>i < length docs. (key, v) \<in> set (newDocument_entries (k + i) (docs ! i))
      \<and> nd_file (docs ! i) \<noteq> None \<and> doc_type_id (docs ! i) \<noteq> []"
proof (induction docs arbitrary: k)
  case Nil
  then show ?case by simp
next
  case (Cons doc docs)
  from Cons.prems consider "(key, v) \<in> set (newDocument_entries k doc)"
    | "(key, v) \<in> set (forEach_newDocuments (Suc k) docs)"
    by auto
  then show ?case
  proof cases
    case 1
    then have "nd_file doc \<noteq> None \<and> doc_type_id doc \<noteq> []"
      by (cases "nd_file doc") (auto simp: newDocument_entries_def split: if_splits)
    with 1 show ?thesis
      by (intro exI [of _ 0]) simp
  next
    case 2
    from Cons.IH [OF 2] obtain i where "i < length docs"
      "(key, v) \<in> set (newDocument_entries (Suc k + i) (docs ! i))"
      "nd_file (docs ! i) \<noteq> None \<and> doc_type_id (docs ! i) \<noteq> []"
      by blast
    then show ?thesis
      by (intro exI [of _ "Suc i"]) simp
  qed
qed

lemma validate_ignores_files:
  "validate_newDocuments dts (map (\<lambda>doc. doc\<lparr>nd_file := None\<rparr>) docs) = validate_newDocuments dts docs"
  by (induction docs) simp_all

lemma file_entries_of_body:
  "(new_document_key n ''file'', FileValue f) \<in> set (body (submit_request s))
   \<longleftrightarrow> (new_document_key n ''file'', FileValue f) \<in> set (forEach_newDocuments 0 (newDocuments s))"
  by (auto simp: submit_request_def submissionData_def split: option.splits)

lemma forEach_newDocuments_concat:
  "forEach_newDocuments k docs =
     concat (map (\<lambda>(i, doc). newDocument_entries i doc) (enumerate k docs))"
  by (induction docs arbitrary: k) simp_all

lemma handleSubmit_issued:
  assumes "handleSubmit s = RequestIssued s' r"
  shows "r = submit_request s \<and> \<not> isViewer s"
  using assms by (auto simp: handleSubmit_def split: if_splits option.splits)

lemma body_submit_request: "body (submit_request s) = submissionData s"
  by (simp add: submit_request_def split: option.splits)

text \<open>
  C10. When \<open>handleSubmit\<close> issues the request, its body is the employee data,
  then, for each pending row in the order of the list, nothing when the row has no file
  or an empty type id, and otherwise its file, type id, type name, expiry and
  legislation ids under the position of the row in the whole list, then the deleted
  documents and, for a record under edit, the updated ones. So the body has a file
  entry under the index \<open>n\<close> exactly when the row at position \<open>n\<close> has a file and a
  type. A request is issued whenever a session that may edit has an employee selected
  and no row lacks a required expiry date; a row without a file that lacks one stops
  the submission like any other.
\<close>

theorem pending_rows_in_body:
  "(handleSubmit s = RequestIssued s' r \<longrightarrow>
      body r =
        (''employee_data'', JsonFormData (formData s))
        # concat (map (\<lambda>(i, doc).
                    case nd_file doc of
                      None \<Rightarrow> []
                    | Some f \<Rightarrow>
                        if doc_type_id doc = [] then []
                        else [(new_document_key i ''file'', FileValue f),
                              (new_document_key i ''doc_type_id'', StringValue (doc_type_id doc)),
                              (new_document_key i ''doc_type_name'', StringValue (doc_type_name doc)),
                              (new_document_key i ''expiry'', StringValue (expiry doc))]
                             @ map (\<lambda>legId. (new_document_key i ''legislation_ids'' @ ''[]'',
                                            StringValue legId))
                                 (legislation_ids doc))
                  (enumerate 0 (newDocuments s)))
        @ (''deleted_documents'', JsonIds (deletedDocIds s))
        # (if truthy_num (employeeToEditId s)
           then [(''updated_documents'',
                  JsonUpdatedDocs
                    (map (\<lambda>doc. (ex_system_id doc, ex_legislation_ids doc))
                       (filter (\<lambda>doc. Some (ex_doc_type_id doc) = warrantDecisionDocTypeId (docTypes s))
                          (existingDocuments s))))]
           else [])
    \<and> (\<forall>n f. (new_document_key n ''file'', FileValue f) \<in> set (body r)
           \<longleftrightarrow> n < length (newDocuments s) \<and> nd_file (newDocuments s ! n) = Some f
               \<and> doc_type_id (newDocuments s ! n) \<noteq> []))
   \<and> (\<not> isViewer s \<and> truthy (employee_id (formData s))
        \<and> (\<forall>doc \<in> set (newDocuments s). \<not> expiry_missing (docTypes s) doc) \<longrightarrow>
        (\<exists>s' r. handleSubmit s = RequestIssued s' r))
   \<and> (\<not> isViewer s \<and> truthy (employee_id (formData s))
        \<and> index < length (newDocuments s) \<and> nd_file (newDocuments s ! index) = None
        \<and> expiry_missing (docTypes s) (newDocuments s ! index) \<longrightarrow>
        (\<exists>message. handleSubmit s = ValidationFailed (s\<lparr>error := message\<rparr>)))"
proof (intro conjI impI allI)
  assume issued: "handleSubmit s = RequestIssued s' r"
  then have r: "r = submit_request s"
    using handleSubmit_issued by blast
  have fe: "(\<lambda>(i, doc). newDocument_entries i doc) =
      (\<lambda>(i, doc).
                    case nd_file doc of
                      None \<Rightarrow> []
                    | Some f \<Rightarrow>
                        if doc_type_id doc = [] then []
                        else [(new_document_key i ''file'', FileValue f),
                              (new_document_key i ''doc_type_id'', StringValue (doc_type_id doc)),
                              (new_document_key i ''doc_type_name'', StringValue (doc_type_name doc)),
                              (new_document_key i ''expiry'', StringValue (expiry doc))]
                             @ map (\<lambda>legId. (new_document_key i ''legislation_ids'' @ ''[]'',
                                            StringValue legId))
                                 (legislation_ids doc))"
    by (simp add: fun_eq_iff newDocument_entries_def)
  show "body r =
        (''employee_data'', JsonFormData (formData s))
        # concat (map (\<lambda>(i, doc).
                    case nd_file doc of
                      None \<Rightarrow> []
                    | Some f \<Rightarrow>
                        if doc_type_id doc = [] then []
                        else [(new_document_key i ''file'', FileValue f),
                              (new_document_key i ''doc_type_id'', StringValue (doc_type_id doc)),
                              (new_document_key i ''doc_type_name'', StringValue (doc_type_name doc)),
                              (new_document_key i ''expiry'', StringValue (expiry doc))]
                             @ map (\<lambda>legId. (new_document_key i ''legislation_ids'' @ ''[]'',
                                            StringValue legId))
                                 (legislation_ids doc))
                  (enumerate 0 (newDocuments s)))
        @ (''deleted_documents'', JsonIds (deletedDocIds s))
        # (if truthy_num (employeeToEditId s)
           then [(''updated_documents'',
                  JsonUpdatedDocs
                    (map (\<lambda>doc. (ex_system_id doc, ex_legislation_ids doc))
                       (filter (\<lambda>doc. Some (ex_doc_type_id doc) = warrantDecisionDocTypeId (docTypes s))
                          (existingDocuments s))))]
           else [])"
    unfolding r body_submit_request submissionData_def forEach_newDocuments_concat fe by simp
  fix n f
  show "(new_document_key n ''file'', FileValue f) \<in> set (body r)
           \<longleftrightarrow> n < length (newDocuments s) \<and> nd_file (newDocuments s ! n) = Some f
               \<and> doc_type_id (newDocuments s ! n) \<noteq> []"
    unfolding r by (simp add: file_entries_of_body file_entry_of_rows)
next
  assume a: "\<not> isViewer s \<and> truthy (employee_id (formData s))
        \<and> (\<forall>doc \<in> set (newDocuments s). \<not> expiry_missing (docTypes s) doc)"
  then have "find (expiry_missing (docTypes s)) (newDocuments s) = None"
    by (simp add: find_None_iff)
  with a show "\<exists>s' r. handleSubmit s = RequestIssued s' r"
    by (simp add: handleSubmit_editor)
next
  assume a: "\<not> isViewer s \<and> truthy (employee_id (formData s))
        \<and> index < length (newDocuments s) \<and> nd_file (newDocuments s ! index) = None
        \<and> expiry_missing (docTypes s) (newDocuments s ! index)"
  then have "\<exists>doc. find (expiry_missing (docTypes s)) (newDocuments s) = Some doc"
    by (cases "find (expiry_missing (docTypes s)) (newDocuments s)")
       (auto simp: find_None_iff)
  with a show "\<exists>message. handleSubmit s = ValidationFailed (s\<lparr>error := message\<rparr>)"
    by (auto simp: handleSubmit_editor)
qed

lemma sent_form_fields:
  "\<not> isViewer (form_with rows)" "truthy (employee_id (formData (form_with rows)))"
  "employeeToEditId (form_with rows) = None" "deletedDocIds (form_with rows) = []"
  by (simp_all add: form_with_def seeded_form_def handleEmployeeSelect_def profile_42_def
        initial_form_state_def)

text \<open>
  Four pending rows of which the second has no file and the third no type: the request
  carries the rows at the positions 0 and 3. A passport row without a file and without
  an expiry date fails the validation.
\<close>

theorem pending_rows_in_body_witness:
  "(\<exists>s' r. handleSubmit (form_with [photo_row, unfiled_photo, untyped_row, photo_row]) = RequestIssued s' r
       \<and> map fst (body r) =
           [''employee_data'',
            ''new_documents[0][file]'', ''new_documents[0][doc_type_id]'',
            ''new_documents[0][doc_type_name]'', ''new_documents[0][expiry]'',
            ''new_documents[3][file]'', ''new_documents[3][doc_type_id]'',
            ''new_documents[3][doc_type_name]'', ''new_documents[3][expiry]'',
            ''deleted_documents''])
   \<and> (\<exists>message. handleSubmit (form_with [photo_row, unfiled_row]) =
          ValidationFailed ((form_with [photo_row, unfiled_row])\<lparr>error := message\<rparr>))"
proof -
  let ?s = "form_with [photo_row, unfiled_photo, untyped_row, photo_row]"
  let ?u = "form_with [photo_row, unfiled_row]"
  have ok: "\<not> isViewer ?s \<and> truthy (employee_id (formData ?s))
        \<and> (\<forall>doc \<in> set (newDocuments ?s). \<not> expiry_missing (docTypes ?s) doc)"
    by (simp add: form_with_fields unfiled_photo_def untyped_row_def empty_row_def expiry_missing_def
          two_types_def photo_row_def expiryDocTypeIds_def passport_type_def parseInt_examples
          parseInt_empty)
  have first: "\<exists>s' r. handleSubmit ?s = RequestIssued s' r
       \<and> map fst (body r) =
           [''employee_data'',
            ''new_documents[0][file]'', ''new_documents[0][doc_type_id]'',
            ''new_documents[0][doc_type_name]'', ''new_documents[0][expiry]'',
            ''new_documents[3][file]'', ''new_documents[3][doc_type_id]'',
            ''new_documents[3][doc_type_name]'', ''new_documents[3][expiry]'',
            ''deleted_documents'']"
  proof -
    from pending_rows_in_body [where s = ?s, THEN conjunct2, THEN conjunct1, THEN mp, OF ok]
    obtain s' r where issued: "handleSubmit ?s = RequestIssued s' r"
      by blast
    note b = pending_rows_in_body [where s = ?s and s' = s' and r = r, THEN conjunct1, THEN mp,
        OF issued, THEN conjunct1]
    have "map fst (body r) =
           [''employee_data'',
            ''new_documents[0][file]'', ''new_documents[0][doc_type_id]'',
            ''new_documents[0][doc_type_name]'', ''new_documents[0][expiry]'',
            ''new_documents[3][file]'', ''new_documents[3][doc_type_id]'',
            ''new_documents[3][doc_type_name]'', ''new_documents[3][expiry]'',
            ''deleted_documents'']"
      unfolding b
      by (simp add: form_with_fields sent_form_fields unfiled_photo_def untyped_row_def empty_row_def
            photo_row_def new_document_key_def toString_def string_of_nat.simps digit_char_def
            enumerate_eq_zip)
    with issued show ?thesis
      by (intro exI conjI)
  qed
  have bad: "\<not> isViewer ?u \<and> truthy (employee_id (formData ?u))
        \<and> (1::nat) < length (newDocuments ?u) \<and> nd_file (newDocuments ?u ! 1) = None
        \<and> expiry_missing (docTypes ?u) (newDocuments ?u ! 1)"
    by (simp add: form_with_fields unfiled_row_def expiry_missing_def passport_row_def
          two_types_def expiryDocTypeIds_def passport_type_def parseInt_examples)
  note failed = pending_rows_in_body [where s = ?u and index = 1, THEN conjunct2, THEN conjunct2,
      THEN mp, OF bad]
  from first failed show ?thesis
    by (rule conjI)
qed

section \<open>The rule of the derived status\<close>

lemma derived_status_effect_idle:
  "isFormLocked s \<or> judicialCardDocTypeId (docTypes s) = None
   \<or> judicialCardDocTypeId (docTypes s) = Some 0 \<or> employee_status (statuses s) = []
   \<Longrightarrow> derived_status_effect s = s"
  by (auto simp: derived_status_effect_def split: option.splits)

lemma has_card_iff:
  "(0 < length (filter (\<lambda>doc. ex_doc_type_id doc = jc) (existingDocuments s))
        + length (filter (\<lambda>doc. doc_type_id doc = toString jc) (newDocuments s)))
   \<longleftrightarrow> list_ex (\<lambda>doc. ex_doc_type_id doc = jc) (existingDocuments s)
       \<or> list_ex (\<lambda>doc. doc_type_id doc = toString jc) (newDocuments s)"
  by (auto simp: list_ex_iff filter_empty_conv)

lemma derived_status_effect_running:
  assumes "\<not> isFormLocked s" and "judicialCardDocTypeId (docTypes s) = Some jc" and "jc \<noteq> 0"
    and "employee_status (statuses s) \<noteq> []"
  shows "derived_status_effect s =
     (if list_ex (\<lambda>doc. ex_doc_type_id doc = jc) (existingDocuments s)
          \<or> list_ex (\<lambda>doc. doc_type_id doc = toString jc) (newDocuments s)
      then (case find (\<lambda>st. name_english st = ''Active'') (employee_status (statuses s)) of
              Some a \<Rightarrow> s\<lparr>formData := (formData s)\<lparr>status_id := toString (st_system_id a)\<rparr>\<rparr>
            | None \<Rightarrow> s)
      else (case find (\<lambda>st. name_english st = ''Inactive'') (employee_status (statuses s)) of
              Some i \<Rightarrow> s\<lparr>formData := (formData s)\<lparr>status_id := toString (st_system_id i)\<rparr>\<rparr>
            | None \<Rightarrow> s))"
  using assms
  by (simp add: derived_status_effect_def Let_def has_card_iff [symmetric] del: length_greater_0_conv)

lemma judicialCardDocTypeId_listed:
  assumes "judicialCardDocTypeId dts = Some jc"
  shows "\<exists>ty \<in> set (all_types dts). system_id ty = jc"
proof -
  from assms obtain ty where
    "find (\<lambda>dt. str_includes (name dt) ''Judicial Card''
                \<or> str_includes (name dt) arabic_judicial_card) (all_types dts) = Some ty"
    and "system_id ty = jc"
    by (auto simp: judicialCardDocTypeId_def)
  then show ?thesis
    by (auto simp: find_Some_iff)
qed

lemma usedDocTypeIds_no_documents:
  "existingDocuments s = [] \<Longrightarrow> newDocuments s = [empty_row] \<Longrightarrow> usedDocTypeIds s = {}"
  by (simp add: usedDocTypeIds_def add_new_type_def empty_row_def parseInt_empty)

text \<open>
  The scenario of the specification: a form that may be edited, with no document, a
  judicial card type and both statuses. The effect gives \<open>Inactive\<close>; adding a row and
  choosing the judicial card type gives \<open>Active\<close>; removing the row gives
  \<open>Inactive\<close> again.
\<close>

lemma derived_status_scenario:
  assumes "editing_enabled s" and "existingDocuments s = []" and "newDocuments s = []"
    and jc: "judicialCardDocTypeId (docTypes s) = Some jc" "jc \<noteq> 0"
    and a: "find (\<lambda>st. name_english st = ''Active'') (employee_status (statuses s)) = Some a"
    and i: "find (\<lambda>st. name_english st = ''Inactive'') (employee_status (statuses s)) = Some i"
  shows "status_id (formData (derived_status_effect s)) = toString (st_system_id i)
    \<and> (\<exists>s1 s2. form_run [EvAddRow, EvChangeRow 0 (ChangeDocTypeId (toString jc))] s = Some s1
          \<and> status_id (formData s1) = toString (st_system_id a)
          \<and> form_run [EvRemoveRow 0] s1 = Some s2
          \<and> status_id (formData s2) = toString (st_system_id i))"
proof -
  from assms(1) have unlocked: "\<not> isFormLocked s" and editor: "\<not> isViewer s"
    by (simp_all add: editing_enabled_def)
  from a have loaded: "employee_status (statuses s) \<noteq> []"
    by auto
  let ?inactive = "\<lambda>t. t\<lparr>formData := (formData t)\<lparr>status_id := toString (st_system_id i)\<rparr>\<rparr>"
  let ?active = "\<lambda>t. t\<lparr>formData := (formData t)\<lparr>status_id := toString (st_system_id a)\<rparr>\<rparr>"
  have e0: "derived_status_effect s = ?inactive s"
    using assms(2,3) i
    by (simp add: derived_status_effect_running [OF unlocked jc loaded])
  \<comment> \<open>the new row\<close>
  let ?t1 = "s\<lparr>newDocuments := [empty_row]\<rparr>"
  let ?s1 = "?inactive ?t1"
  have "derived_status_effect ?t1 = ?s1"
    using assms(2) i unlocked jc loaded
    by (subst derived_status_effect_running [where jc = jc])
       (simp_all add: empty_row_def toString_nonempty [symmetric])
  then have step1: "form_step EvAddRow s = Some ?s1"
    using assms(1,3) by (simp add: effects_after_def addNewDocumentRow_def)
  \<comment> \<open>the judicial card type chosen in it\<close>
  have en1: "editing_enabled ?s1"
    using assms(1) by (simp add: editing_enabled_def)
  from judicialCardDocTypeId_listed [OF jc(1)]
  obtain ty where ty: "ty \<in> set (all_types (docTypes s))" "system_id ty = jc"
    by blast
  have "usedDocTypeIds ?s1 = {}"
    using assms(2) by (intro usedDocTypeIds_no_documents) simp_all
  then have offered: "change_offered ?s1 (newDocuments ?s1 ! 0) (ChangeDocTypeId (toString jc))"
    using ty by (auto simp: list_ex_iff option_disabled_def)
  let ?row = "set_doc_type (docTypes s) (toString jc) empty_row"
  let ?t2 = "?s1\<lparr>error := [], newDocuments := [?row]\<rparr>"
  let ?s2 = "?active ?t2"
  have row: "doc_type_id ?row = toString jc"
    by (simp add: set_doc_type_def Let_def)
  have h2: "handleNewDocumentChange 0 (ChangeDocTypeId (toString jc)) ?s1 = Returned ?t2"
    by (simp add: update_row_def)
  have "derived_status_effect ?t2 = ?s2"
    using a unlocked jc loaded row
    by (subst derived_status_effect_running [where jc = jc]) simp_all
  with h2 en1 offered have step2: "form_step (EvChangeRow 0 (ChangeDocTypeId (toString jc))) ?s1 = Some ?s2"
    by (simp add: effects_after_def)
  \<comment> \<open>the row removed\<close>
  have en2: "editing_enabled ?s2"
    using assms(1) by (simp add: editing_enabled_def)
  let ?t3 = "?s2\<lparr>newDocuments := []\<rparr>"
  let ?s3 = "?inactive ?t3"
  have r3: "removeNewDocumentRow 0 ?s2 = ?t3"
    by (simp add: removeNewDocumentRow_def)
  have "derived_status_effect ?t3 = ?s3"
    using assms(2) i unlocked jc loaded
    by (subst derived_status_effect_running [where jc = jc]) simp_all
  with r3 en2 have step3: "form_step (EvRemoveRow 0) ?s2 = Some ?s3"
    by (simp add: effects_after_def)
  have run12: "form_run [EvAddRow, EvChangeRow 0 (ChangeDocTypeId (toString jc))] s = Some ?s2"
    using step1 step2 by simp
  have run3: "form_run [EvRemoveRow 0] ?s2 = Some ?s3"
    using step3 by simp
  have st2: "status_id (formData ?s2) = toString (st_system_id a)"
    by simp
  have st3: "status_id (formData ?s3) = toString (st_system_id i)"
    by simp
  have "\<exists>s1 s2. form_run [EvAddRow, EvChangeRow 0 (ChangeDocTypeId (toString jc))] s = Some s1
          \<and> status_id (formData s1) = toString (st_system_id a)
          \<and> form_run [EvRemoveRow 0] s1 = Some s2
          \<and> status_id (formData s2) = toString (st_system_id i)"
  proof (rule exI [of _ ?s2], rule exI [of _ ?s3], intro conjI)
    show "form_run [EvAddRow, EvChangeRow 0 (ChangeDocTypeId (toString jc))] s = Some ?s2"
      by (rule run12)
    show "status_id (formData ?s2) = toString (st_system_id a)"
      by (rule st2)
    show "form_run [EvRemoveRow 0] ?s2 = Some ?s3"
      by (rule run3)
    show "status_id (formData ?s3) = toString (st_system_id i)"
      by (rule st3)
  qed
  moreover have "status_id (formData (derived_status_effect s)) = toString (st_system_id i)"
    unfolding e0 by simp
  ultimately show ?thesis
    by (rule conjI [rotated])
qed

lemma derived_status_effect_frame:
  "existingDocuments (derived_status_effect t) = existingDocuments t"
  "newDocuments (derived_status_effect t) = newDocuments t"
  "docTypes (derived_status_effect t) = docTypes t"
  "statuses (derived_status_effect t) = statuses t"
  "isFormLocked (derived_status_effect t) = isFormLocked t"
  by (simp_all add: derived_status_effect_def Let_def split: option.splits)

lemma effect_dependencies_effect:
  "effect_dependencies (derived_status_effect t) = effect_dependencies t"
  by (simp add: effect_dependencies_def derived_status_effect_frame)

lemma effects_after_cases:
  "effects_after b old new = derived_status_effect new
   \<or> (effects_after b old new = new \<and> \<not> b
       \<and> judicialCardDocTypeId (docTypes old) = judicialCardDocTypeId (docTypes new)
       \<and> isFormLocked old = isFormLocked new)"
  by (simp add: effects_after_def)

text \<open>An event that changes a dependency of the effect is followed by the effect.\<close>

lemma form_step_runs_effect:
  assumes "form_step e s = Some s'" and "effect_dependencies s' \<noteq> effect_dependencies s"
  shows "\<exists>t. s' = derived_status_effect t \<and> status_id (formData t) = status_before_effect e s"
proof (cases e)
  case (EvStatusesLoaded v)
  with assms(1) have "s' = derived_status_effect (setStatuses v s)"
    by (simp add: effects_after_def)
  moreover have "status_id (formData (setStatuses v s)) = status_id (formData s)"
    by (simp add: setStatuses_def)
  ultimately show ?thesis
    using EvStatusesLoaded by auto
next
  case (EvDocTypesLoaded v)
  let ?t = "setDocTypes v s"
  from EvDocTypesLoaded assms(1) have s': "s' = effects_after False s ?t"
    by simp
  have same: "existingDocuments ?t = existingDocuments s" "newDocuments ?t = newDocuments s"
    "statuses ?t = statuses s" "isFormLocked ?t = isFormLocked s" "formData ?t = formData s"
    by (simp_all add: setDocTypes_def)
  from effects_after_cases [of False s ?t] show ?thesis
  proof
    assume "effects_after False s ?t = derived_status_effect ?t"
    with s' same EvDocTypesLoaded show ?thesis
      by auto
  next
    assume "effects_after False s ?t = ?t \<and> \<not> False
       \<and> judicialCardDocTypeId (docTypes s) = judicialCardDocTypeId (docTypes ?t)
       \<and> isFormLocked s = isFormLocked ?t"
    with s' same have "effect_dependencies s' = effect_dependencies s"
      by (simp add: effect_dependencies_def)
    with assms(2) show ?thesis
      by simp
  qed
next
  case (EvSelectEmployee n fetched)
  let ?t = "handleEmployeeSelect (toString n) fetched s"
  from EvSelectEmployee assms(1) have s': "s' = effects_after False s ?t"
    by (simp split: if_splits)
  have same: "existingDocuments ?t = existingDocuments s" "newDocuments ?t = newDocuments s"
    "statuses ?t = statuses s" "docTypes ?t = docTypes s"
    by (simp_all add: handleEmployeeSelect_def split: option.splits)
  from effects_after_cases [of False s ?t] show ?thesis
  proof
    assume run: "effects_after False s ?t = derived_status_effect ?t"
    show ?thesis
    proof (cases fetched)
      case None
      then have "?t = s"
        by (simp add: handleEmployeeSelect_def toString_nonempty)
      with s' have "s' = s \<or> s' = derived_status_effect s"
        by (simp add: effects_after_def)
      then have "effect_dependencies s' = effect_dependencies s"
        using effect_dependencies_effect by auto
      with assms(2) show ?thesis
        by simp
    next
      case (Some details)
      then have "status_id (formData ?t) = []"
        by (simp add: handleEmployeeSelect_def toString_nonempty)
      with run s' EvSelectEmployee show ?thesis
        by auto
    qed
  next
    assume "effects_after False s ?t = ?t \<and> \<not> False
       \<and> judicialCardDocTypeId (docTypes s) = judicialCardDocTypeId (docTypes ?t)
       \<and> isFormLocked s = isFormLocked ?t"
    with s' same have "effect_dependencies s' = effect_dependencies s"
      by (simp add: effect_dependencies_def)
    with assms(2) show ?thesis
      by simp
  qed
next
  case (EvInput nm v)
  let ?t = "handleInputChange nm v s"
  from EvInput assms(1) have s': "s' = effects_after False s ?t"
    by (simp split: if_splits)
  have same: "existingDocuments ?t = existingDocuments s" "newDocuments ?t = newDocuments s"
    "statuses ?t = statuses s" "docTypes ?t = docTypes s" "isFormLocked ?t = isFormLocked s"
    by (cases nm; simp)+
  then have "s' = ?t"
    using s' by (simp add: effects_after_def)
  with same have "effect_dependencies s' = effect_dependencies s"
    by (simp add: effect_dependencies_def)
  with assms(2) show ?thesis
    by simp
next
  case (EvNationality v)
  let ?t = "handleNationalityChange v s"
  from EvNationality assms(1) have s': "s' = effects_after False s ?t"
    by (simp split: if_splits)
  then have "s' = ?t"
    by (simp add: effects_after_def handleNationalityChange_def)
  then have "effect_dependencies s' = effect_dependencies s"
    by (simp add: effect_dependencies_def handleNationalityChange_def)
  with assms(2) show ?thesis
    by simp
next
  case EvAddRow
  with assms(1) have "s' = derived_status_effect (addNewDocumentRow s)"
    by (simp add: effects_after_def split: if_splits)
  moreover have "status_id (formData (addNewDocumentRow s)) = status_id (formData s)"
    by (simp add: addNewDocumentRow_def)
  ultimately show ?thesis
    using EvAddRow by auto
next
  case (EvChangeRow index change)
  with assms(1) obtain t where h: "handleNewDocumentChange index change s = Returned t"
    and s': "s' = effects_after (calls_setNewDocuments change) s t"
    by (auto split: if_splits handler_result.splits)
  have frame: "existingDocuments t = existingDocuments s" "formData t = formData s"
    "docTypes t = docTypes s" "statuses t = statuses s" "isFormLocked t = isFormLocked s"
    using h
    by (cases change; (cases "case change of ChangeFile f \<Rightarrow> f | _ \<Rightarrow> None")?;
        auto simp: update_row_def split: if_splits option.splits)+
  from effects_after_cases [of "calls_setNewDocuments change" s t] show ?thesis
  proof
    assume "effects_after (calls_setNewDocuments change) s t = derived_status_effect t"
    with s' frame EvChangeRow show ?thesis
      by auto
  next
    assume idle: "effects_after (calls_setNewDocuments change) s t = t
       \<and> \<not> calls_setNewDocuments change
       \<and> judicialCardDocTypeId (docTypes s) = judicialCardDocTypeId (docTypes t)
       \<and> isFormLocked s = isFormLocked t"
    then obtain v where "change = ChangeFile (Some v)" "file_type v \<notin> set allowedTypes"
      by (cases change rule: calls_setNewDocuments.cases) auto
    with h have "newDocuments t = newDocuments s"
      by auto
    moreover from idle have "effects_after (calls_setNewDocuments change) s t = t"
      by (rule conjunct1)
    with s' have "s' = t"
      by (simp only:)
    ultimately have "effect_dependencies s' = effect_dependencies s"
      using frame by (simp add: effect_dependencies_def)
    with assms(2) show ?thesis
      by simp
  qed
next
  case (EvRemoveRow index)
  with assms(1) have "s' = derived_status_effect (removeNewDocumentRow index s)"
    by (simp add: effects_after_def split: if_splits)
  moreover have "status_id (formData (removeNewDocumentRow index s)) = status_id (formData s)"
    by (simp add: removeNewDocumentRow_def)
  ultimately show ?thesis
    using EvRemoveRow by auto
next
  case (EvToggleExistingLegislation d x)
  with assms(1) have "s' = derived_status_effect (handleExistingDocLegislationChange d x s)"
    by (simp add: effects_after_def split: if_splits)
  moreover have "status_id (formData (handleExistingDocLegislationChange d x s)) = status_id (formData s)"
    by (simp add: handleExistingDocLegislationChange_def)
  ultimately show ?thesis
    using EvToggleExistingLegislation by auto
next
  case (EvDeleteExisting d)
  with assms(1) have "s' = derived_status_effect (handleDeleteExistingDoc d s)"
    by (simp add: effects_after_def split: if_splits)
  moreover have "status_id (formData (handleDeleteExistingDoc d s)) = status_id (formData s)"
    by (simp add: handleDeleteExistingDoc_def)
  ultimately show ?thesis
    using EvDeleteExisting by auto
qed

text \<open>The status after an event that changed a dependency of the effect.\<close>

lemma derived_status_after_event:
  "form_step e s = Some s' \<and> effect_dependencies s' \<noteq> effect_dependencies s \<longrightarrow>
     (\<not> isFormLocked s' \<and> judicialCardDocTypeId (docTypes s') = Some jc \<and> jc \<noteq> 0
        \<and> employee_status (statuses s') \<noteq> [] \<longrightarrow>
        (list_ex (\<lambda>doc. ex_doc_type_id doc = jc) (existingDocuments s')
           \<or> list_ex (\<lambda>doc. doc_type_id doc = toString jc) (newDocuments s') \<longrightarrow>
           (find (\<lambda>st. name_english st = ''Active'') (employee_status (statuses s')) = Some a \<longrightarrow>
              status_id (formData s') = toString (st_system_id a))
         \<and> (find (\<lambda>st. name_english st = ''Active'') (employee_status (statuses s')) = None \<longrightarrow>
              status_id (formData s') = status_before_effect e s))
      \<and> (\<not> (list_ex (\<lambda>doc. ex_doc_type_id doc = jc) (existingDocuments s')
              \<or> list_ex (\<lambda>doc. doc_type_id doc = toString jc) (newDocuments s')) \<longrightarrow>
           (find (\<lambda>st. name_english st = ''Inactive'') (employee_status (statuses s')) = Some i \<longrightarrow>
              status_id (formData s') = toString (st_system_id i))
         \<and> (find (\<lambda>st. name_english st = ''Inactive'') (employee_status (statuses s')) = None \<longrightarrow>
              status_id (formData s') = status_before_effect e s)))
   \<and> (isFormLocked s' \<or> judicialCardDocTypeId (docTypes s') = None
        \<or> judicialCardDocTypeId (docTypes s') = Some 0 \<or> employee_status (statuses s') = []
        \<longrightarrow> status_id (formData s') = status_before_effect e s)"
  (is "?changed \<longrightarrow> (?running \<longrightarrow> ?set) \<and> (?idle \<longrightarrow> ?kept)")
proof (rule impI)
  assume ?changed
  then obtain t where s': "s' = derived_status_effect t"
    and before: "status_id (formData t) = status_before_effect e s"
    using form_step_runs_effect [of e s s'] by blast
  have frame: "existingDocuments s' = existingDocuments t" "newDocuments s' = newDocuments t"
    "docTypes s' = docTypes t" "statuses s' = statuses t" "isFormLocked s' = isFormLocked t"
    unfolding s' by (rule derived_status_effect_frame)+
  have idle: ?kept if ?idle
  proof -
    from that have "derived_status_effect t = t"
      unfolding frame by (rule derived_status_effect_idle)
    with s' before show ?thesis
      by simp
  qed
  have running: ?set if ?running
  proof -
    from that have run: "\<not> isFormLocked t" "judicialCardDocTypeId (docTypes t) = Some jc" "jc \<noteq> 0"
      "employee_status (statuses t) \<noteq> []"
      unfolding frame by simp_all
    show ?thesis
      unfolding frame unfolding s' derived_status_effect_running [OF run]
      using before by simp
  qed
  show "(?running \<longrightarrow> ?set) \<and> (?idle \<longrightarrow> ?kept)"
  proof (rule conjI)
    show "?running \<longrightarrow> ?set"
      by (rule impI) (rule running)
    show "?idle \<longrightarrow> ?kept"
      by (rule impI) (rule idle)
  qed
qed

text \<open>
  C1, as the code has it. The effect leaves the form as it is while the form is
  locked, while no type of the catalog is named as the judicial card (or that type has
  the id 0), and while no status is loaded. Otherwise, when a stored document or a
  pending row has the judicial card type, the status becomes the id of the status
  named \<open>Active\<close>, and nothing changes when the catalog has no such status; when no
  document has that type, the status becomes the id of the status named
  \<open>Inactive\<close>, and nothing changes when the catalog has no such status. In a form
  that may be edited, with both statuses and no document, the derived status is
  \<open>Inactive\<close>, becomes \<open>Active\<close> when a row is added and given the judicial card
  type, and \<open>Inactive\<close> again when that row is removed. After every event of the form
  that changes a dependency of the effect (the stored documents, the pending rows, the
  id of the judicial card type, the statuses or the lock) the status is the one this
  rule gives: the id of \<open>Active\<close> or of \<open>Inactive\<close> where the rule sets one, and
  the status the handler of the event left where it sets none. The effect also runs
  after the mount effect has unlocked a form opened for an edit, and after the record
  was loaded.
\<close>

theorem derived_status_rule:
  "(isFormLocked s \<or> judicialCardDocTypeId (docTypes s) = None
      \<or> judicialCardDocTypeId (docTypes s) = Some 0 \<or> employee_status (statuses s) = []
      \<longrightarrow> derived_status_effect s = s)
   \<and> (\<not> isFormLocked s \<and> judicialCardDocTypeId (docTypes s) = Some jc \<and> jc \<noteq> 0
        \<and> employee_status (statuses s) \<noteq> [] \<longrightarrow>
        (list_ex (\<lambda>doc. ex_doc_type_id doc = jc) (existingDocuments s)
           \<or> list_ex (\<lambda>doc. doc_type_id doc = toString jc) (newDocuments s) \<longrightarrow>
           (find (\<lambda>st. name_english st = ''Active'') (employee_status (statuses s)) = Some a \<longrightarrow>
              derived_status_effect s =
                s\<lparr>formData := (formData s)\<lparr>status_id := toString (st_system_id a)\<rparr>\<rparr>)
         \<and> (find (\<lambda>st. name_english st = ''Active'') (employee_status (statuses s)) = None \<longrightarrow>
              derived_status_effect s = s))
      \<and> (\<not> (list_ex (\<lambda>doc. ex_doc_type_id doc = jc) (existingDocuments s)
              \<or> list_ex (\<lambda>doc. doc_type_id doc = toString jc) (newDocuments s)) \<longrightarrow>
           (find (\<lambda>st. name_english st = ''Inactive'') (employee_status (statuses s)) = Some i \<longrightarrow>
              derived_status_effect s =
                s\<lparr>formData := (formData s)\<lparr>status_id := toString (st_system_id i)\<rparr>\<rparr>)
         \<and> (find (\<lambda>st. name_english st = ''Inactive'') (employee_status (statuses s)) = None \<longrightarrow>
              derived_status_effect s = s)))
   \<and> (editing_enabled s \<and> existingDocuments s = [] \<and> newDocuments s = []
        \<and> judicialCardDocTypeId (docTypes s) = Some jc \<and> jc \<noteq> 0
        \<and> find (\<lambda>st. name_english st = ''Active'') (employee_status (statuses s)) = Some a
        \<and> find (\<lambda>st. name_english st = ''Inactive'') (employee_status (statuses s)) = Some i \<longrightarrow>
        status_id (formData (derived_status_effect s)) = toString (st_system_id i)
      \<and> (\<exists>s1 s2. form_run [EvAddRow, EvChangeRow 0 (ChangeDocTypeId (toString jc))] s = Some s1
            \<and> status_id (formData s1) = toString (st_system_id a)
            \<and> form_run [EvRemoveRow 0] s1 = Some s2
            \<and> status_id (formData s2) = toString (st_system_id i)))
   \<and> (form_step e s = Some s' \<and> effect_dependencies s' \<noteq> effect_dependencies s \<longrightarrow>
        (\<not> isFormLocked s' \<and> judicialCardDocTypeId (docTypes s') = Some jc \<and> jc \<noteq> 0
           \<and> employee_status (statuses s') \<noteq> [] \<longrightarrow>
           (list_ex (\<lambda>doc. ex_doc_type_id doc = jc) (existingDocuments s')
              \<or> list_ex (\<lambda>doc. doc_type_id doc = toString jc) (newDocuments s') \<longrightarrow>
              (find (\<lambda>st. name_english st = ''Active'') (employee_status (statuses s')) = Some a \<longrightarrow>
                 status_id (formData s') = toString (st_system_id a))
            \<and> (find (\<lambda>st. name_english st = ''Active'') (employee_status (statuses s')) = None \<longrightarrow>
                 status_id (formData s') = status_before_effect e s))
         \<and> (\<not> (list_ex (\<lambda>doc. ex_doc_type_id doc = jc) (existingDocuments s')
                 \<or> list_ex (\<lambda>doc. doc_type_id doc = toString jc) (newDocuments s')) \<longrightarrow>
              (find (\<lambda>st. name_english st = ''Inactive'') (employee_status (statuses s')) = Some i \<longrightarrow>
                 status_id (formData s') = toString (st_system_id i))
            \<and> (find (\<lambda>st. name_english st = ''Inactive'') (employee_status (statuses s')) = None \<longrightarrow>
                 status_id (formData s') = status_before_effect e s)))
      \<and> (isFormLocked s' \<or> judicialCardDocTypeId (docTypes s') = None
           \<or> judicialCardDocTypeId (docTypes s') = Some 0 \<or> employee_status (statuses s') = []
           \<longrightarrow> status_id (formData s') = status_before_effect e s))
   \<and> (truthy_num (employeeToEditId s) \<and> isFormLocked s \<longrightarrow>
        effects_after False s (mount_effect s) = derived_status_effect (mount_effect s))
   \<and> effects_after True s (hydrate fd documents s) = derived_status_effect (hydrate fd documents s)"
  (is "?idle \<and> (?guard \<longrightarrow> ?set) \<and> ?scenario \<and> ?event \<and> ?mount \<and> ?load")
proof (intro conjI)
  show ?idle
    using derived_status_effect_idle by blast
  show "?guard \<longrightarrow> ?set"
  proof (rule impI)
    assume ?guard
    then have run: "\<not> isFormLocked s" "judicialCardDocTypeId (docTypes s) = Some jc" "jc \<noteq> 0"
      "employee_status (statuses s) \<noteq> []"
      by simp_all
    show ?set
      unfolding derived_status_effect_running [OF run] by simp
  qed
  show ?scenario
    using derived_status_scenario [of s jc a i] by blast
  show ?event
    by (rule derived_status_after_event)
  show ?mount
    by (simp add: effects_after_def mount_effect_def)
  show ?load
    by (simp add: effects_after_def)
qed

lemma card_catalog_judicial: "judicialCardDocTypeId card_catalog = Some 5"
  by (simp add: judicialCardDocTypeId_def card_catalog_def passport_type_def photo_type_def
        card_type_def arabic_judicial_card_def)

lemma card_form_fields:
  "editing_enabled card_form" "existingDocuments card_form = []" "newDocuments card_form = []"
  "docTypes card_form = card_catalog"
  "employee_status (statuses card_form) = [active_status, inactive_status]"
  by (simp_all add: card_form_def seeded_form_def handleEmployeeSelect_def initial_form_state_def
        editing_enabled_def)

lemma active_only_form_fields:
  "\<not> isFormLocked active_only_form" "docTypes active_only_form = card_catalog"
  "employee_status (statuses active_only_form) = [active_status]"
  "existingDocuments active_only_form = [stored_card]"
  "status_id (formData active_only_form) = []"
  by (simp_all add: active_only_form_def initial_form_state_def initial_formData_def)

lemma edited_card_form_fields:
  "editing_enabled edited_card_form" "truthy_num (employeeToEditId edited_card_form)"
  "existingDocuments edited_card_form = [stored_card]" "newDocuments edited_card_form = []"
  "docTypes edited_card_form = card_catalog" "statuses edited_card_form = both_statuses"
  "status_id (formData edited_card_form) = ''1''"
  by (simp_all add: edited_card_form_def initial_form_state_def editing_enabled_def)

lemma both_statuses_found:
  "employee_status both_statuses \<noteq> []"
  "find (\<lambda>st. name_english st = ''Active'') (employee_status both_statuses) = Some active_status"
  "find (\<lambda>st. name_english st = ''Inactive'') (employee_status both_statuses) = Some inactive_status"
  by (simp_all add: both_statuses_def active_status_def inactive_status_def)

theorem derived_status_rule_witness:
  "derived_status_effect (initial_form_state None False) = initial_form_state None False
   \<and> status_id (formData (derived_status_effect card_form)) = ''2''
   \<and> (\<exists>s1 s2. form_run [EvAddRow, EvChangeRow 0 (ChangeDocTypeId ''5'')] card_form = Some s1
         \<and> status_id (formData s1) = ''1''
         \<and> form_run [EvRemoveRow 0] s1 = Some s2
         \<and> status_id (formData s2) = ''2'')
   \<and> derived_status_effect (active_only_form\<lparr>existingDocuments := []\<rparr>) =
       active_only_form\<lparr>existingDocuments := []\<rparr>
   \<and> map_option (\<lambda>s. status_id (formData s)) (form_step (EvDeleteExisting 200) edited_card_form)
     = Some ''2''
   \<and> map_option (\<lambda>s. status_id (formData s))
       (form_step (EvDocTypesLoaded card_catalog)
          (edited_card_form\<lparr>docTypes := two_types, formData := initial_formData\<rparr>))
     = Some ''1''
   \<and> map_option (\<lambda>s. status_id (formData s))
       (form_step (EvStatusesLoaded both_statuses)
          (edited_card_form\<lparr>statuses := \<lparr>employee_status = []\<rparr>, formData := initial_formData\<rparr>))
     = Some ''1''
   \<and> map_option (\<lambda>s. status_id (formData s))
       (form_step (EvSelectEmployee 42 (Some profile_42))
          ((initial_form_state None False)\<lparr>docTypes := card_catalog, statuses := both_statuses\<rparr>))
     = Some ''2''"
proof -
  have five: "toString 5 = ''5''"
    by (simp add: toString_def string_of_nat.simps digit_char_def)
  have ids: "toString (st_system_id active_status) = ''1''"
    "toString (st_system_id inactive_status) = ''2''"
    by (simp_all add: active_status_def inactive_status_def toString_examples)
  have found: "name_english active_status = ''Active''" "name_english inactive_status = ''Inactive''"
    by (simp_all add: active_status_def inactive_status_def)
  have locked: "isFormLocked (initial_form_state None False)"
    by (simp add: initial_form_state_def)
  note idle = derived_status_rule [of "initial_form_state None False" 5 active_status inactive_status,
      THEN conjunct1, THEN mp, OF disjI1, OF locked]
  have pre: "editing_enabled card_form \<and> existingDocuments card_form = [] \<and> newDocuments card_form = []
        \<and> judicialCardDocTypeId (docTypes card_form) = Some 5 \<and> (5::int) \<noteq> 0
        \<and> find (\<lambda>st. name_english st = ''Active'') (employee_status (statuses card_form)) = Some active_status
        \<and> find (\<lambda>st. name_english st = ''Inactive'') (employee_status (statuses card_form)) = Some inactive_status"
    by (simp add: card_form_fields card_catalog_judicial found)
  note scenario = derived_status_rule [of card_form 5 active_status inactive_status,
      THEN conjunct2, THEN conjunct2, THEN conjunct1, THEN mp, OF pre, unfolded five ids]
  let ?u = "active_only_form\<lparr>existingDocuments := []\<rparr>"
  have pre2: "\<not> isFormLocked ?u \<and> judicialCardDocTypeId (docTypes ?u) = Some 5 \<and> (5::int) \<noteq> 0
        \<and> employee_status (statuses ?u) \<noteq> []"
    by (simp add: active_only_form_fields card_catalog_judicial)
  have none: "\<not> (list_ex (\<lambda>doc. ex_doc_type_id doc = 5) (existingDocuments ?u)
              \<or> list_ex (\<lambda>doc. doc_type_id doc = toString 5) (newDocuments ?u))"
    by (simp add: active_only_form_def initial_form_state_def)
  have absent: "find (\<lambda>st. name_english st = ''Inactive'') (employee_status (statuses ?u)) = None"
    by (simp add: active_only_form_fields active_status_def)
  note untouched = derived_status_rule [of ?u 5 active_status inactive_status,
      THEN conjunct2, THEN conjunct1, THEN mp, OF pre2, THEN conjunct2, THEN mp, OF none,
      THEN conjunct2, THEN mp, OF absent]
  \<comment> \<open>the stored judicial card removed\<close>
  let ?d = "derived_status_effect (handleDeleteExistingDoc 200 edited_card_form)"
  have step_d: "form_step (EvDeleteExisting 200) edited_card_form = Some ?d"
    by (simp add: edited_card_form_fields effects_after_def stored_card_def)
  have fields_d: "existingDocuments ?d = []" "newDocuments ?d = []" "docTypes ?d = card_catalog"
    "statuses ?d = both_statuses" "\<not> isFormLocked ?d"
    using edited_card_form_fields(1)
    by (simp_all add: derived_status_effect_frame handleDeleteExistingDoc_def
          edited_card_form_fields stored_card_def editing_enabled_def)
  have "existingDocuments ?d \<noteq> existingDocuments edited_card_form"
    unfolding fields_d by (simp add: edited_card_form_fields)
  then have "effect_dependencies ?d \<noteq> effect_dependencies edited_card_form"
    unfolding effect_dependencies_def by blast
  with step_d have changed_d: "form_step (EvDeleteExisting 200) edited_card_form = Some ?d
      \<and> effect_dependencies ?d \<noteq> effect_dependencies edited_card_form"
    by (rule conjI)
  have run_d: "\<not> isFormLocked ?d \<and> judicialCardDocTypeId (docTypes ?d) = Some 5 \<and> (5::int) \<noteq> 0
      \<and> employee_status (statuses ?d) \<noteq> []"
    by (simp add: fields_d card_catalog_judicial both_statuses_found)
  have none_d: "\<not> (list_ex (\<lambda>doc. ex_doc_type_id doc = 5) (existingDocuments ?d)
      \<or> list_ex (\<lambda>doc. doc_type_id doc = toString 5) (newDocuments ?d))"
    by (simp add: fields_d)
  have inactive_d: "find (\<lambda>st. name_english st = ''Inactive'') (employee_status (statuses ?d))
      = Some inactive_status"
    by (simp add: fields_d both_statuses_found)
  note deleted = derived_status_rule [where s = edited_card_form and e = "EvDeleteExisting 200"
      and s' = ?d and jc = 5 and a = active_status and i = inactive_status,
      THEN conjunct2, THEN conjunct2, THEN conjunct2, THEN conjunct1, THEN mp, OF changed_d,
      THEN conjunct1, THEN mp, OF run_d, THEN conjunct2, THEN mp, OF none_d,
      THEN conjunct1, THEN mp, OF inactive_d, unfolded ids]
  from step_d deleted have first: "map_option (\<lambda>s. status_id (formData s))
      (form_step (EvDeleteExisting 200) edited_card_form) = Some ''2''"
    by (simp only: option.map)
  \<comment> \<open>the catalog of document types arrives\<close>
  let ?S2 = "edited_card_form\<lparr>docTypes := two_types, formData := initial_formData\<rparr>"
  let ?c = "derived_status_effect (setDocTypes card_catalog ?S2)"
  have no_card_type: "judicialCardDocTypeId two_types = None"
    by (simp add: judicialCardDocTypeId_def two_types_def passport_type_def photo_type_def
          arabic_judicial_card_def)
  have step_c: "form_step (EvDocTypesLoaded card_catalog) ?S2 = Some ?c"
    by (simp add: effects_after_def setDocTypes_def no_card_type card_catalog_judicial)
  have fields_c: "existingDocuments ?c = [stored_card]" "newDocuments ?c = []"
    "docTypes ?c = card_catalog" "statuses ?c = both_statuses" "\<not> isFormLocked ?c"
    using edited_card_form_fields(1)
    by (simp_all add: derived_status_effect_frame setDocTypes_def edited_card_form_fields
          editing_enabled_def)
  have "judicialCardDocTypeId (docTypes ?c) \<noteq> judicialCardDocTypeId (docTypes ?S2)"
    unfolding fields_c by (simp add: no_card_type card_catalog_judicial)
  then have "effect_dependencies ?c \<noteq> effect_dependencies ?S2"
    unfolding effect_dependencies_def by blast
  with step_c have changed_c: "form_step (EvDocTypesLoaded card_catalog) ?S2 = Some ?c
      \<and> effect_dependencies ?c \<noteq> effect_dependencies ?S2"
    by (rule conjI)
  have run_c: "\<not> isFormLocked ?c \<and> judicialCardDocTypeId (docTypes ?c) = Some 5 \<and> (5::int) \<noteq> 0
      \<and> employee_status (statuses ?c) \<noteq> []"
    by (simp add: fields_c card_catalog_judicial both_statuses_found)
  have card_c: "list_ex (\<lambda>doc. ex_doc_type_id doc = 5) (existingDocuments ?c)
      \<or> list_ex (\<lambda>doc. doc_type_id doc = toString 5) (newDocuments ?c)"
    by (simp add: fields_c stored_card_def)
  have active_c: "find (\<lambda>st. name_english st = ''Active'') (employee_status (statuses ?c))
      = Some active_status"
    by (simp add: fields_c both_statuses_found)
  note catalog = derived_status_rule [where s = ?S2 and e = "EvDocTypesLoaded card_catalog"
      and s' = ?c and jc = 5 and a = active_status and i = inactive_status,
      THEN conjunct2, THEN conjunct2, THEN conjunct2, THEN conjunct1, THEN mp, OF changed_c,
      THEN conjunct1, THEN mp, OF run_c, THEN conjunct1, THEN mp, OF card_c,
      THEN conjunct1, THEN mp, OF active_c, unfolded ids]
  from step_c catalog have second: "map_option (\<lambda>s. status_id (formData s))
      (form_step (EvDocTypesLoaded card_catalog) ?S2) = Some ''1''"
    by (simp only: option.map)
  \<comment> \<open>the catalog of statuses arrives\<close>
  let ?S3 = "edited_card_form\<lparr>statuses := \<lparr>employee_status = []\<rparr>, formData := initial_formData\<rparr>"
  let ?t = "derived_status_effect (setStatuses both_statuses ?S3)"
  have step_t: "form_step (EvStatusesLoaded both_statuses) ?S3 = Some ?t"
    by (simp add: effects_after_def)
  have fields_t: "existingDocuments ?t = [stored_card]" "newDocuments ?t = []"
    "docTypes ?t = card_catalog" "statuses ?t = both_statuses" "\<not> isFormLocked ?t"
    using edited_card_form_fields(1)
    by (simp_all add: derived_status_effect_frame setStatuses_def edited_card_form_fields
          editing_enabled_def)
  have "statuses ?t \<noteq> statuses ?S3"
    unfolding fields_t by (simp add: both_statuses_def)
  then have "effect_dependencies ?t \<noteq> effect_dependencies ?S3"
    unfolding effect_dependencies_def by blast
  with step_t have changed_t: "form_step (EvStatusesLoaded both_statuses) ?S3 = Some ?t
      \<and> effect_dependencies ?t \<noteq> effect_dependencies ?S3"
    by (rule conjI)
  have run_t: "\<not> isFormLocked ?t \<and> judicialCardDocTypeId (docTypes ?t) = Some 5 \<and> (5::int) \<noteq> 0
      \<and> employee_status (statuses ?t) \<noteq> []"
    by (simp add: fields_t card_catalog_judicial both_statuses_found)
  have card_t: "list_ex (\<lambda>doc. ex_doc_type_id doc = 5) (existingDocuments ?t)
      \<or> list_ex (\<lambda>doc. doc_type_id doc = toString 5) (newDocuments ?t)"
    by (simp add: fields_t stored_card_def)
  have active_t: "find (\<lambda>st. name_english st = ''Active'') (employee_status (statuses ?t))
      = Some active_status"
    by (simp add: fields_t both_statuses_found)
  note loaded = derived_status_rule [where s = ?S3 and e = "EvStatusesLoaded both_statuses"
      and s' = ?t and jc = 5 and a = active_status and i = inactive_status,
      THEN conjunct2, THEN conjunct2, THEN conjunct2, THEN conjunct1, THEN mp, OF changed_t,
      THEN conjunct1, THEN mp, OF run_t, THEN conjunct1, THEN mp, OF card_t,
      THEN conjunct1, THEN mp, OF active_t, unfolded ids]
  from step_t loaded have third: "map_option (\<lambda>s. status_id (formData s))
      (form_step (EvStatusesLoaded both_statuses) ?S3) = Some ''1''"
    by (simp only: option.map)
  \<comment> \<open>an employee is picked, which unlocks the form\<close>
  let ?S4 = "(initial_form_state None False)\<lparr>docTypes := card_catalog, statuses := both_statuses\<rparr>"
  let ?p = "derived_status_effect (handleEmployeeSelect (toString 42) (Some profile_42) ?S4)"
  have step_u: "form_step (EvSelectEmployee 42 (Some profile_42)) ?S4 = Some ?p"
    by (simp add: effects_after_def initial_form_state_def handleEmployeeSelect_def
          toString_nonempty)
  have fields_u: "existingDocuments ?p = []" "newDocuments ?p = []"
    "docTypes ?p = card_catalog" "statuses ?p = both_statuses" "\<not> isFormLocked ?p"
    by (simp_all add: derived_status_effect_frame handleEmployeeSelect_def toString_nonempty
          initial_form_state_def)
  have "isFormLocked ?p \<noteq> isFormLocked ?S4"
    using fields_u(5) by (simp add: initial_form_state_def)
  then have "effect_dependencies ?p \<noteq> effect_dependencies ?S4"
    unfolding effect_dependencies_def by blast
  with step_u have changed_u: "form_step (EvSelectEmployee 42 (Some profile_42)) ?S4 = Some ?p
      \<and> effect_dependencies ?p \<noteq> effect_dependencies ?S4"
    by (rule conjI)
  have run_u: "\<not> isFormLocked ?p \<and> judicialCardDocTypeId (docTypes ?p) = Some 5 \<and> (5::int) \<noteq> 0
      \<and> employee_status (statuses ?p) \<noteq> []"
    by (simp add: fields_u card_catalog_judicial both_statuses_found)
  have none_u: "\<not> (list_ex (\<lambda>doc. ex_doc_type_id doc = 5) (existingDocuments ?p)
      \<or> list_ex (\<lambda>doc. doc_type_id doc = toString 5) (newDocuments ?p))"
    by (simp add: fields_u)
  have inactive_u: "find (\<lambda>st. name_english st = ''Inactive'') (employee_status (statuses ?p))
      = Some inactive_status"
    by (simp add: fields_u both_statuses_found)
  note picked = derived_status_rule [where s = ?S4 and e = "EvSelectEmployee 42 (Some profile_42)"
      and s' = ?p and jc = 5 and a = active_status and i = inactive_status,
      THEN conjunct2, THEN conjunct2, THEN conjunct2, THEN conjunct1, THEN mp, OF changed_u,
      THEN conjunct1, THEN mp, OF run_u, THEN conjunct2, THEN mp, OF none_u,
      THEN conjunct1, THEN mp, OF inactive_u, unfolded ids]
  from step_u picked have fourth: "map_option (\<lambda>s. status_id (formData s))
      (form_step (EvSelectEmployee 42 (Some profile_42)) ?S4) = Some ''2''"
    by (simp only: option.map)
  from idle scenario [THEN conjunct1] scenario [THEN conjunct2] untouched
    first second third fourth
  show ?thesis
    by (intro conjI)
qed

text \<open>
  C1 as the specification words it fails: here the catalog has no status named
  \<open>Inactive\<close>, and the status of a form with a stored judicial card is set all the
  same, from empty to the id of \<open>Active\<close>.
\<close>

theorem status_set_without_inactive_entry:
  "find (\<lambda>st. name_english st = ''Inactive'') (employee_status (statuses active_only_form)) = None
   \<and> status_id (formData active_only_form) = []
   \<and> status_id (formData (derived_status_effect active_only_form)) = ''1''"
proof -
  have run: "\<not> isFormLocked active_only_form" "judicialCardDocTypeId (docTypes active_only_form) = Some 5"
    "(5::int) \<noteq> 0" "employee_status (statuses active_only_form) \<noteq> []"
    by (simp_all add: active_only_form_fields card_catalog_judicial)
  show ?thesis
    unfolding derived_status_effect_running [OF run]
    by (simp add: active_only_form_fields active_status_def stored_card_def toString_examples)
qed

section \<open>Used document types and their options\<close>

lemma fold_add_existing_type:
  "t \<in> fold add_existing_type docs used \<longleftrightarrow>
     t \<in> used \<or> (\<exists>doc \<in> set docs. ex_doc_type_id doc = t \<and> \<not> is_other (doc_name doc))"
  by (induction docs arbitrary: used) (auto simp: add_existing_type_def)

lemma fold_add_new_type:
  "t \<in> fold add_new_type docs used \<longleftrightarrow>
     t \<in> used
     \<or> (\<exists>doc \<in> set docs. parseInt (doc_type_id doc) = Some t \<and> t \<noteq> 0
            \<and> \<not> is_other (doc_type_name doc))"
  by (induction docs arbitrary: used) (auto simp: add_new_type_def split: option.splits)

text \<open>Which ids the set of used types holds.\<close>

lemma usedDocTypeIds_iff:
  "t \<in> usedDocTypeIds s \<longleftrightarrow>
     (\<exists>doc \<in> set (existingDocuments s). ex_doc_type_id doc = t \<and> \<not> is_other (doc_name doc))
     \<or> (\<exists>doc \<in> set (newDocuments s). parseInt (doc_type_id doc) = Some t \<and> t \<noteq> 0
            \<and> \<not> is_other (doc_type_name doc))"
  by (simp add: usedDocTypeIds_def fold_add_new_type fold_add_existing_type)

lemma used_by_stored_document:
  assumes "list_ex (\<lambda>doc. ex_doc_type_id doc = t \<and> \<not> is_other (doc_name doc)) (existingDocuments s)"
  shows "t \<in> usedDocTypeIds s"
  using assms by (auto simp: usedDocTypeIds_iff list_ex_iff)

lemma used_by_pending_row:
  assumes "t \<noteq> 0"
    and "list_ex (\<lambda>doc. doc_type_id doc = toString t \<and> \<not> is_other (doc_type_name doc)) (newDocuments s)"
  shows "t \<in> usedDocTypeIds s"
proof -
  from assms(2) obtain doc where "doc \<in> set (newDocuments s)" "doc_type_id doc = toString t"
    "\<not> is_other (doc_type_name doc)"
    by (auto simp: list_ex_iff)
  with assms(1) show ?thesis
    by (auto simp: usedDocTypeIds_iff parseInt_toString)
qed

lemma used_type_not_offered:
  assumes "t \<in> usedDocTypeIds s" and "doc_type_id row \<noteq> toString t"
  shows "\<not> change_offered s row (ChangeDocTypeId (toString t))"
proof -
  have "\<not> list_ex (\<lambda>ty. toString (system_id ty) = toString t \<and> \<not> option_disabled s row ty)
           (all_types (docTypes s))"
    using assms by (auto simp: list_ex_iff option_disabled_def dest: toString_inject)
  then show ?thesis
    by (simp add: toString_nonempty)
qed

text \<open>
  C6, as the code has it. A type counts as used when a stored document of that type
  has a name without \<open>other\<close> in it, or when a pending row holds it under a type name
  without \<open>other\<close> in it and its id is not 0. The option of a used type is disabled
  in every pending row that does not hold that type, and the page gives no event that
  would choose it there. A type that only documents and rows with \<open>other\<close> in their
  name hold is disabled in no row, however many hold it.
\<close>

theorem used_type_options_disabled:
  "(list_ex (\<lambda>doc. ex_doc_type_id doc = t \<and> \<not> is_other (doc_name doc)) (existingDocuments s)
      \<or> t \<noteq> 0
        \<and> list_ex (\<lambda>doc. doc_type_id doc = toString t \<and> \<not> is_other (doc_type_name doc))
             (newDocuments s) \<longrightarrow>
      (\<forall>row ty. system_id ty = t \<and> doc_type_id row \<noteq> toString t \<longrightarrow> option_disabled s row ty)
    \<and> (\<forall>index. index < length (newDocuments s)
            \<and> doc_type_id (newDocuments s ! index) \<noteq> toString t \<longrightarrow>
            form_step (EvChangeRow index (ChangeDocTypeId (toString t))) s = None))
   \<and> ((\<forall>doc \<in> set (existingDocuments s). ex_doc_type_id doc = t \<longrightarrow> is_other (doc_name doc))
        \<and> (\<forall>doc \<in> set (newDocuments s).
              parseInt (doc_type_id doc) = Some t \<longrightarrow> is_other (doc_type_name doc)) \<longrightarrow>
        (\<forall>row ty. system_id ty = t \<longrightarrow> \<not> option_disabled s row ty))"
proof (intro conjI impI allI)
  assume used: "list_ex (\<lambda>doc. ex_doc_type_id doc = t \<and> \<not> is_other (doc_name doc)) (existingDocuments s)
      \<or> t \<noteq> 0
        \<and> list_ex (\<lambda>doc. doc_type_id doc = toString t \<and> \<not> is_other (doc_type_name doc))
             (newDocuments s)"
  then have t: "t \<in> usedDocTypeIds s"
    using used_by_stored_document used_by_pending_row by blast
  {
    fix row :: NewDocument and ty :: DocType
    assume "system_id ty = t \<and> doc_type_id row \<noteq> toString t"
    with t show "option_disabled s row ty"
      by (auto simp: option_disabled_def)
  }
  {
    fix index
    assume "index < length (newDocuments s) \<and> doc_type_id (newDocuments s ! index) \<noteq> toString t"
    then have "\<not> change_offered s (newDocuments s ! index) (ChangeDocTypeId (toString t))"
      using used_type_not_offered [OF t] by blast
    then show "form_step (EvChangeRow index (ChangeDocTypeId (toString t))) s = None"
      by simp
  }
next
  fix row :: NewDocument and ty :: DocType
  assume free: "(\<forall>doc \<in> set (existingDocuments s). ex_doc_type_id doc = t \<longrightarrow> is_other (doc_name doc))
        \<and> (\<forall>doc \<in> set (newDocuments s).
              parseInt (doc_type_id doc) = Some t \<longrightarrow> is_other (doc_type_name doc))"
    and ty: "system_id ty = t"
  from free have "t \<notin> usedDocTypeIds s"
    by (auto simp: usedDocTypeIds_iff)
  with ty show "\<not> option_disabled s row ty"
    by (simp add: option_disabled_def)
qed

lemma zero_form_fields:
  "newDocuments zero_form = [zero_row, empty_row]" "existingDocuments zero_form = []"
  "editing_enabled zero_form"
  "all_types (docTypes zero_form) = [zero_type, photo_type]"
  by (simp_all add: zero_form_def seeded_form_def handleEmployeeSelect_def initial_form_state_def
        editing_enabled_def)

lemma mixed_form_fields:
  "newDocuments mixed_form = [other_row, photo_row, other_row, empty_row]"
  "existingDocuments mixed_form = [stored_other]"
  by (simp_all add: mixed_form_def initial_form_state_def)

lemma is_other_examples:
  "is_other ''Other''" "\<not> is_other ''Photo''" "\<not> is_other ''Passport''" "\<not> is_other []"
  by (simp_all add: is_other_def toLowerCase_def lower_char_def)

theorem used_type_options_disabled_witness:
  "option_disabled mixed_form empty_row photo_type
   \<and> option_disabled mixed_form other_row photo_type
   \<and> form_step (EvChangeRow 3 (ChangeDocTypeId ''2'')) mixed_form = None
   \<and> \<not> option_disabled mixed_form empty_row other_type
   \<and> \<not> option_disabled mixed_form photo_row other_type"
proof -
  have two: "toString 2 = ''2''" and nine: "toString 9 = ''9''"
    by (simp_all add: toString_def string_of_nat.simps digit_char_def)
  have used: "list_ex (\<lambda>doc. ex_doc_type_id doc = 2 \<and> \<not> is_other (doc_name doc))
                (existingDocuments mixed_form)
      \<or> (2::int) \<noteq> 0
        \<and> list_ex (\<lambda>doc. doc_type_id doc = toString 2 \<and> \<not> is_other (doc_type_name doc))
             (newDocuments mixed_form)"
    by (simp add: mixed_form_fields two photo_row_def other_row_def is_other_examples)
  note disabled = used_type_options_disabled [of 2 mixed_form, THEN conjunct1, THEN mp, OF used]
  have a: "option_disabled mixed_form empty_row photo_type"
    using disabled [THEN conjunct1, THEN spec [where x = empty_row], THEN spec [where x = photo_type]]
    by (simp add: photo_type_def empty_row_def two)
  have b: "option_disabled mixed_form other_row photo_type"
    using disabled [THEN conjunct1, THEN spec [where x = other_row], THEN spec [where x = photo_type]]
    by (simp add: photo_type_def other_row_def two)
  have c: "form_step (EvChangeRow 3 (ChangeDocTypeId ''2'')) mixed_form = None"
    using disabled [THEN conjunct2, THEN spec [where x = 3]]
    by (simp add: mixed_form_fields empty_row_def two)
  have free: "(\<forall>doc \<in> set (existingDocuments mixed_form). ex_doc_type_id doc = 9 \<longrightarrow> is_other (doc_name doc))
        \<and> (\<forall>doc \<in> set (newDocuments mixed_form).
              parseInt (doc_type_id doc) = Some 9 \<longrightarrow> is_other (doc_type_name doc))"
    by (simp add: mixed_form_fields stored_other_def other_row_def photo_row_def empty_row_def
          is_other_examples parseInt_examples parseInt_empty)
  note enabled = used_type_options_disabled [of 9 mixed_form, THEN conjunct2, THEN mp, OF free]
  have d: "\<not> option_disabled mixed_form empty_row other_type"
    using enabled [THEN spec [where x = empty_row], THEN spec [where x = other_type]] by (simp add: other_type_def)
  have e: "\<not> option_disabled mixed_form photo_row other_type"
    using enabled [THEN spec [where x = photo_row], THEN spec [where x = other_type]] by (simp add: other_type_def)
  from a b c d e show ?thesis
    by simp
qed

text \<open>
  C6 as the specification words it fails in two ways. For a type with the id 0: the
  first row holds the passport type, whose name has no \<open>other\<close> in it, and the option
  of that type is not disabled in the second row, which can choose it too. For the type
  named \<open>Other\<close>: a stored document of that type whose own name is \<open>Scan 12\<close>
  disables the option of the type in a row that does not hold it.
\<close>

theorem uniqueness_rule_exceptions:
  "doc_type_id (newDocuments zero_form ! 0) = toString (system_id zero_type)
   \<and> \<not> is_other (doc_type_name (newDocuments zero_form ! 0))
   \<and> \<not> option_disabled zero_form (newDocuments zero_form ! 1) zero_type
   \<and> map_option (\<lambda>s. map doc_type_id (newDocuments s))
        (form_step (EvChangeRow 1 (ChangeDocTypeId ''0'')) zero_form) = Some [''0'', ''0'']
   \<and> is_other (name other_type)
   \<and> map ex_doc_type_id (existingDocuments scan_form) = [system_id other_type]
   \<and> option_disabled scan_form empty_row other_type"
proof -
  have zero: "toString 0 = ''0''"
    by (simp add: toString_examples)
  have p: "parseInt ''0'' = Some 0"
    by (simp add: parseInt_def isWhiteSpace_def isDigit_def digit_value_def)
  have used: "usedDocTypeIds zero_form = {}"
    by (simp add: usedDocTypeIds_def zero_form_fields add_new_type_def zero_row_def empty_row_def
          p parseInt_empty)
  have enabled: "\<not> option_disabled zero_form (newDocuments zero_form ! 1) zero_type"
    by (simp add: option_disabled_def used)
  have offered: "change_offered zero_form (newDocuments zero_form ! 1) (ChangeDocTypeId ''0'')"
    using enabled by (simp add: zero_form_fields zero_type_def zero)
  have "\<exists>s'. form_step (EvChangeRow 1 (ChangeDocTypeId ''0'')) zero_form = Some s'
          \<and> map doc_type_id (newDocuments s') = [''0'', ''0'']"
    using offered
    by (simp add: zero_form_fields update_row_def effects_after_def set_doc_type_def Let_def
          zero_row_def derived_status_effect_documents derived_status_effect_def
          split: option.splits)
  then have first: "doc_type_id (newDocuments zero_form ! 0) = toString (system_id zero_type)
   \<and> \<not> is_other (doc_type_name (newDocuments zero_form ! 0))
   \<and> \<not> option_disabled zero_form (newDocuments zero_form ! 1) zero_type
   \<and> map_option (\<lambda>s. map doc_type_id (newDocuments s))
        (form_step (EvChangeRow 1 (ChangeDocTypeId ''0'')) zero_form) = Some [''0'', ''0'']"
    using enabled by (auto simp: zero_form_fields zero_row_def zero_type_def zero is_other_examples)
  have scan12: "\<not> is_other ''Scan 12''"
    by (simp add: is_other_def toLowerCase_def lower_char_def)
  have nine: "toString 9 = ''9''"
    by (simp add: toString_def string_of_nat.simps digit_char_def)
  have "usedDocTypeIds scan_form = {9}"
    by (simp add: usedDocTypeIds_def scan_form_def mixed_form_def initial_form_state_def
          add_existing_type_def add_new_type_def stored_scan_def empty_row_def scan12
          parseInt_empty)
  then have second: "is_other (name other_type)
   \<and> map ex_doc_type_id (existingDocuments scan_form) = [system_id other_type]
   \<and> option_disabled scan_form empty_row other_type"
    by (simp add: option_disabled_def other_type_def is_other_examples scan_form_def
          mixed_form_def initial_form_state_def stored_scan_def empty_row_def nine)
  from first second show ?thesis
    by simp
qed

section \<open>A burst of keystrokes\<close>

lemma select_run_append:
  "select_run (es @ es') s =
     (case select_run es s of None \<Rightarrow> None | Some s1 \<Rightarrow> select_run es' s1)"
  by (induction es arbitrary: s) (auto split: option.splits)

text \<open>The state after a keystroke that changed the text to \<open>v\<close>.\<close>

lemma onChange_changed:
  assumes "v \<noteq> searchTerm s"
  shows "onChange v s = (render (s\<lparr>searchTerm := v, isOpen := True\<rparr>))\<lparr>timer := Some v\<rparr>"
  using assms by (simp add: onChange_def debounce_effect_def render_def Let_def)

lemma onChange_again:
  assumes "v' \<noteq> v"
  shows "onChange v' ((render (s\<lparr>searchTerm := v, isOpen := True\<rparr>))\<lparr>timer := Some v\<rparr>) =
         (render (s\<lparr>searchTerm := v', isOpen := True\<rparr>))\<lparr>timer := Some v'\<rparr>"
  using assms by (simp add: onChange_def debounce_effect_def render_def Let_def)

lemma keystrokes_after_first:
  assumes "mounted s" and "\<not> disabled s"
  shows "each_changes v vs \<Longrightarrow>
     select_run (map Keystroke vs) ((render (s\<lparr>searchTerm := v, isOpen := True\<rparr>))\<lparr>timer := Some v\<rparr>) =
     Some ((render (s\<lparr>searchTerm := last (v # vs), isOpen := True\<rparr>))\<lparr>timer := Some (last (v # vs))\<rparr>)"
proof (induction vs arbitrary: v)
  case Nil
  show ?case by simp
next
  case (Cons v' vs)
  from Cons.prems have "v' \<noteq> v" and rest: "each_changes v' vs"
    by simp_all
  then have "select_step (Keystroke v') ((render (s\<lparr>searchTerm := v, isOpen := True\<rparr>))\<lparr>timer := Some v\<rparr>) =
      Some ((render (s\<lparr>searchTerm := v', isOpen := True\<rparr>))\<lparr>timer := Some v'\<rparr>)"
    using assms onChange_again [of v' v s] by (simp add: render_def)
  with Cons.IH [OF rest] show ?case
    by simp
qed

lemma keystrokes_run:
  assumes "mounted s" and "\<not> disabled s" and "vs \<noteq> []" and "each_changes (searchTerm s) vs"
  shows "select_run (map Keystroke vs) s =
     Some ((render (s\<lparr>searchTerm := last vs, isOpen := True\<rparr>))\<lparr>timer := Some (last vs)\<rparr>)"
proof -
  from assms(3) obtain v rest where vs: "vs = v # rest"
    by (cases vs) auto
  with assms(4) have "v \<noteq> searchTerm s" and rest: "each_changes v rest"
    by simp_all
  then have "select_step (Keystroke v) s =
      Some ((render (s\<lparr>searchTerm := v, isOpen := True\<rparr>))\<lparr>timer := Some v\<rparr>)"
    using assms(1,2) onChange_changed [of v s] by simp
  with keystrokes_after_first [OF assms(1,2) rest] vs show ?thesis
    by simp
qed

text \<open>
  A burst of keystrokes followed by the quiet period: the timeout fires once, with the
  last text. It sends one request for the first page of that text when no request was
  loading at the last keystroke, and it sends nothing when one was: the guard of
  \<open>fetchEmployees\<close> returns before the controller in flight is aborted.
\<close>

lemma debounced_burst:
  assumes "mounted s" and "\<not> disabled s" and "vs \<noteq> []" and "each_changes (searchTerm s) vs"
  shows "\<exists>s'. select_run (map Keystroke vs @ [Elapsed]) s = Some s'
           \<and> requests_sent s s' =
               (if isLoading s then []
                else [\<lparr> controller = length (issued s), search = last vs, page_param = 1,
                        isNewSearch = True \<rparr>])"
proof -
  let ?s1 = "(render (s\<lparr>searchTerm := last vs, isOpen := True\<rparr>))\<lparr>timer := Some (last vs)\<rparr>"
  let ?s2 = "timeout_callback (last vs) (?s1\<lparr>timer := None\<rparr>)"
  have run: "select_run (map Keystroke vs @ [Elapsed]) s = Some ?s2"
    using keystrokes_run [OF assms] by (simp add: select_run_append)
  have "requests_sent s ?s2 =
               (if isLoading s then []
                else [\<lparr> controller = length (issued s), search = last vs, page_param = 1,
                        isNewSearch = True \<rparr>])"
    by (simp add: requests_sent_def timeout_callback_def fetchEmployees_def render_def
          abort_current_def Let_def split: option.splits)
  with run show ?thesis
    by blast
qed

lemma busy_select_loading: "isLoading busy_select \<and> pending busy_select = [0] \<and> mounted busy_select"
  by (simp add: busy_select_def render_def timeout_callback_def fetchEmployees_def
        abort_current_def mounted_select_def Let_def)

text \<open>
  C3 at the input where the code departs from it. The request for the empty term is
  still loading when the user types \<open>a\<close> and \<open>ab\<close>; 300 ms later the timeout fires
  and no request is sent for \<open>ab\<close>. When the old request resolves, its page is put
  in the list cleared for the new term, and still no request for \<open>ab\<close> was sent.
  Without a request loading, the same burst sends exactly one request, for \<open>ab\<close>.
\<close>

theorem burst_while_loading_sends_nothing:
  "isLoading busy_select
   \<and> map_option (requests_sent busy_select)
       (select_run [Keystroke ''a'', Keystroke ''ab'', Elapsed] busy_select) = Some []
   \<and> map_option (\<lambda>s. (searchTerm s, employees s, map search (issued s)))
       (select_run [Keystroke ''a'', Keystroke ''ab'', Elapsed, Settle 0 (Resolved page_alice)]
          busy_select) = Some (''ab'', [alice], [[]])
   \<and> map_option (requests_sent (mounted_select False))
       (select_run [Keystroke ''a'', Keystroke ''ab'', Elapsed] (mounted_select False)) =
      Some [\<lparr> controller = 0, search = ''ab'', page_param = 1, isNewSearch = True \<rparr>]"
  by (simp add: busy_select_def mounted_select_def onChange_def render_def debounce_effect_def
        timeout_callback_def fetchEmployees_def abort_current_def Let_def settle_def
        delivered_def promise_chain_def page_alice_def requests_sent_def)

section \<open>Requests of the select that were cancelled\<close>

lemma settle_cancelled:
  assumes "c \<in> set (aborted s)"
  shows "settle c outcome s = settle c outcome' s"
  using assms by (simp add: settle_def delivered_def)

lemma settle_cancelled_state:
  assumes "c \<in> set (aborted s)" and "settle c outcome s = Some s'"
  shows "employees s' = employees s \<and> hasMore s' = hasMore s \<and> console s' = console s"
  using assms
  by (auto simp: settle_def delivered_def promise_chain_def Let_def split: if_splits)

lemma settle_failed:
  assumes "c \<notin> set (aborted s)" and "err \<noteq> ''AbortError''"
    and "settle c (Rejected err) s = Some s'"
  shows "console s' = console s @ [err] \<and> employees s' = employees s \<and> hasMore s' = hasMore s"
  using assms
  by (auto simp: settle_def delivered_def promise_chain_def Let_def split: if_splits)

lemma fetchEmployees_supersedes:
  assumes "\<not> ref_isLoading s" and "ref_hasMore s \<or> newSearch" and "fetchController s = Some c"
  shows "c \<in> set (aborted (fetchEmployees q p newSearch s))"
  using assms by (auto simp: fetchEmployees_def abort_current_def Let_def)

lemma same_or_cancelled_step:
  assumes "same_or_cancelled s e e'"
  shows "select_step e s = select_step e' s"
proof (cases e)
  case (Settle c outcome)
  with assms obtain outcome' where e': "e' = Settle c outcome'"
    and "outcome = outcome' \<or> c \<in> set (aborted s)"
    by (cases e') auto
  then have "settle c outcome s = settle c outcome' s"
    using settle_cancelled by blast
  with Settle e' show ?thesis
    by simp
qed (use assms in auto)

lemma differ_in_cancelled_run:
  "differ_in_cancelled s es es' \<Longrightarrow> select_run es s = select_run es' s"
proof (induction s es es' rule: differ_in_cancelled.induct)
  case (1 s)
  show ?case by simp
next
  case (2 s e es e' es')
  from "2.prems" have same: "same_or_cancelled s e e'"
    by simp
  then have step: "select_step e s = select_step e' s"
    by (rule same_or_cancelled_step)
  show ?case
  proof (cases "select_step e s")
    case None
    with step show ?thesis
      by simp
  next
    case (Some s1)
    with "2.prems" have "differ_in_cancelled s1 es es'"
      by simp
    with Some have "select_run es s1 = select_run es' s1"
      by (rule "2.IH")
    with Some step show ?thesis
      by simp
  qed
qed simp_all

text \<open>
  Teardown: \<open>unmount\<close> aborts no controller, and what settles afterwards reaches
  neither the list nor \<open>hasMore\<close>, since the setters of an unmounted component do
  nothing.
\<close>

lemma settle_unmounted:
  assumes "\<not> mounted s" and "settle c outcome s = Some s'"
  shows "employees s' = employees s \<and> hasMore s' = hasMore s \<and> isLoading s' = isLoading s
    \<and> \<not> mounted s' \<and> timer s' = timer s"
  using assms
  by (auto simp: settle_def promise_chain_def Let_def split: if_splits fetch_outcome.splits)

lemma unmount_aborts_nothing:
  "aborted (unmount s) = aborted s \<and> pending (unmount s) = pending s
   \<and> \<not> mounted (unmount s) \<and> timer (unmount s) = None"
  by (simp add: unmount_def)

lemma select_step_unmounted:
  assumes "\<not> mounted s" and "timer s = None" and "select_step e s = Some s'"
  shows "employees s' = employees s \<and> hasMore s' = hasMore s \<and> \<not> mounted s' \<and> timer s' = None"
proof (cases e)
  case (Settle c outcome)
  with assms(3) have "settle c outcome s = Some s'"
    by simp
  from settle_unmounted [OF assms(1) this] assms(2) show ?thesis
    by simp
qed (use assms in auto)

lemma select_run_unmounted:
  "\<not> mounted s \<Longrightarrow> timer s = None \<Longrightarrow> select_run es s = Some s'
   \<Longrightarrow> employees s' = employees s \<and> hasMore s' = hasMore s"
proof (induction es arbitrary: s)
  case Nil
  then show ?case
    by simp
next
  case (Cons e es)
  from Cons.prems(3) obtain s1 where step: "select_step e s = Some s1"
    and rest: "select_run es s1 = Some s'"
    by (auto split: option.splits)
  from select_step_unmounted [OF Cons.prems(1,2) step]
  have s1: "employees s1 = employees s" "hasMore s1 = hasMore s" "\<not> mounted s1" "timer s1 = None"
    by simp_all
  from Cons.IH [OF s1(3,4) rest] s1(1,2) show ?case
    by simp
qed

lemma select_run_after_unmount:
  assumes "select_run es (unmount s) = Some s'"
  shows "employees s' = employees s \<and> hasMore s' = hasMore s"
proof -
  have "\<not> mounted (unmount s)" "timer (unmount s) = None"
    by (simp_all add: unmount_def)
  from select_run_unmounted [OF this assms] show ?thesis
    by (simp add: unmount_def)
qed

text \<open>
  C4, as the code has it. Two runs that differ only in what cancelled requests settle
  with end in the same state, so the list depends on the requests that were not
  cancelled only: the outcome of a request whose controller was aborted reaches
  neither the list, nor \<open>hasMore\<close>, nor the console. A request that was not
  cancelled and fails with an error other than an \<open>AbortError\<close> has that error
  logged and leaves the list as it was, whether the select is still mounted or not. A
  call of \<open>fetchEmployees\<close> that passes its guard aborts the controller the ref
  holds. Teardown aborts nothing and leaves the requests in flight pending; whatever
  settles in an unmounted select, and whatever happens after a teardown, leaves the
  list and \<open>hasMore\<close> as they were.
\<close>

theorem cancelled_request_never_applied:
  "(differ_in_cancelled s es es' \<longrightarrow> select_run es s = select_run es' s)
   \<and> (c \<in> set (aborted s) \<longrightarrow>
        settle c outcome s = settle c outcome' s
      \<and> (\<forall>s'. settle c outcome s = Some s' \<longrightarrow>
              employees s' = employees s \<and> hasMore s' = hasMore s \<and> console s' = console s))
   \<and> (c \<notin> set (aborted s) \<and> err \<noteq> ''AbortError'' \<longrightarrow>
        (\<forall>s'. settle c (Rejected err) s = Some s' \<longrightarrow>
              console s' = console s @ [err] \<and> employees s' = employees s
            \<and> hasMore s' = hasMore s))
   \<and> (\<not> ref_isLoading s \<and> (ref_hasMore s \<or> newSearch) \<and> fetchController s = Some c \<longrightarrow>
        c \<in> set (aborted (fetchEmployees q p newSearch s)))
   \<and> aborted (unmount s) = aborted s \<and> pending (unmount s) = pending s
   \<and> (\<not> mounted s \<longrightarrow>
        (\<forall>s'. settle c outcome s = Some s' \<longrightarrow>
              employees s' = employees s \<and> hasMore s' = hasMore s))
   \<and> (\<forall>s'. select_run ts (unmount s) = Some s' \<longrightarrow>
              employees s' = employees s \<and> hasMore s' = hasMore s)"
  using differ_in_cancelled_run [of s es es'] settle_cancelled [of c s outcome outcome']
    settle_cancelled_state [of c s outcome] settle_failed [of c s err]
    fetchEmployees_supersedes [of s newSearch c q p]
    unmount_aborts_nothing [of s] settle_unmounted [of s c outcome]
    select_run_after_unmount [of ts s]
  by blast

lemma staff_id: "hr_system_id (staff n) = n"
  by (simp add: staff_def)

text \<open>
  In the first two runs the request for the second page is superseded in flight and
  settles last, with a page in one run and with an error in the other; the list holds
  the first and the second page in both. In the last two runs the select is torn down
  while its first request is in flight: no controller is aborted, the page that arrives
  is dropped, and an error that arrives is logged.
\<close>

theorem cancelled_request_never_applied_witness:
  "differ_in_cancelled (mounted_select False)
     (scroll_run first_page (Resolved stale_page)) (scroll_run first_page (Rejected ''TypeError''))
   \<and> select_run (scroll_run first_page (Resolved stale_page)) (mounted_select False) =
      select_run (scroll_run first_page (Rejected ''TypeError'')) (mounted_select False)
   \<and> map_option (\<lambda>s. (map hr_system_id (employees s), hasMore s, console s, aborted s))
        (select_run (scroll_run first_page (Resolved stale_page)) (mounted_select False)) =
      Some ([1, 2, 3, 4, 5, 6, 7, 8, 9, 10, 11, 12, 13, 14, 15, 16], False, [], [0, 1])
   \<and> map_option console
        (select_run [Elapsed, Settle 0 (Rejected ''TypeError'')] (mounted_select False)) =
      Some [''TypeError'']
   \<and> (\<exists>s'. select_run [Keystroke ''a'', Elapsed, Unmount, Settle 0 (Resolved first_page)]
              (mounted_select False) = Some s'
          \<and> employees s' = [] \<and> hasMore s' \<and> aborted s' = [] \<and> console s' = [])
   \<and> map_option (\<lambda>s. (employees s, aborted s, console s))
        (select_run [Keystroke ''a'', Elapsed, Unmount, Settle 0 (Rejected ''TypeError'')]
           (mounted_select False)) =
      Some ([], [], [''TypeError''])"
proof -
  let ?s0 = "mounted_select False"
  note defs = mounted_select_def onChange_def render_def debounce_effect_def
    timeout_callback_def fetchEmployees_def abort_current_def handleScroll_def Let_def
    settle_def delivered_def promise_chain_def unmount_def scroll_run_def
    first_page_def second_page_def stale_page_def staff_page_def
  have d: "differ_in_cancelled ?s0 (scroll_run first_page (Resolved stale_page))
             (scroll_run first_page (Rejected ''TypeError''))"
    by (simp add: defs)
  note same = cancelled_request_never_applied [where s = ?s0
      and es = "scroll_run first_page (Resolved stale_page)"
      and es' = "scroll_run first_page (Rejected ''TypeError'')", THEN conjunct1, THEN mp, OF d]
  have fin: "map_option (\<lambda>s. (map hr_system_id (employees s), hasMore s, console s, aborted s))
        (select_run (scroll_run first_page (Resolved stale_page)) ?s0) =
      Some ([1, 2, 3, 4, 5, 6, 7, 8, 9, 10, 11, 12, 13, 14, 15, 16], False, [], [0, 1])"
    by (simp add: defs staff_id)
  have logged: "map_option console
        (select_run [Elapsed, Settle 0 (Rejected ''TypeError'')] ?s0) = Some [''TypeError'']"
    by (simp add: defs)
  \<comment> \<open>a request in flight when the select is torn down\<close>
  let ?m = "timeout_callback ''a'' ((onChange ''a'' ?s0)\<lparr>timer := None\<rparr>)"
  have before: "employees ?m = []" "hasMore ?m" "aborted ?m = []" "console ?m = []"
    by (simp_all add: defs)
  have split: "select_run [Keystroke ''a'', Elapsed, Unmount, Settle 0 outcome] ?s0 =
      select_run [Settle 0 outcome] (unmount ?m)" for outcome
    by (simp add: defs)
  obtain s' where run: "select_run [Settle 0 (Resolved first_page)] (unmount ?m) = Some s'"
    and rest: "aborted s' = []" "console s' = []"
    by (simp add: defs)
  note kept = cancelled_request_never_applied [where s = ?m
      and ts = "[Settle 0 (Resolved first_page)]", THEN conjunct2, THEN conjunct2,
      THEN conjunct2, THEN conjunct2, THEN conjunct2, THEN conjunct2, THEN conjunct2,
      THEN spec, THEN mp, OF run]
  have torn: "\<exists>s'. select_run [Keystroke ''a'', Elapsed, Unmount, Settle 0 (Resolved first_page)]
              ?s0 = Some s'
          \<and> employees s' = [] \<and> hasMore s' \<and> aborted s' = [] \<and> console s' = []"
    unfolding split using run kept rest before by simp
  have failed: "map_option (\<lambda>s. (employees s, aborted s, console s))
        (select_run [Keystroke ''a'', Elapsed, Unmount, Settle 0 (Rejected ''TypeError'')] ?s0) =
      Some ([], [], [''TypeError''])"
    by (simp add: defs)
  from d same fin logged torn failed show ?thesis
    by (intro conjI)
qed

text \<open>
  C4 as the specification words it fails where it says that the list depends on the
  last request that was not cancelled only. In both runs \<open>abort()\<close> is called on the
  controller of request 0, which had settled, and on that of request 1, which is
  thereby cancelled in flight; request 2, the last one, resolves with the same page.
  That page is appended to the first page, which differs between the runs, and so do
  the lists.
\<close>

theorem list_depends_on_earlier_pages:
  "map_option (\<lambda>s. (map hr_system_id (employees s), aborted s, map page_param (issued s)))
      (select_run (scroll_run first_page (Resolved stale_page)) (mounted_select False)) =
     Some ([1, 2, 3, 4, 5, 6, 7, 8, 9, 10, 11, 12, 13, 14, 15, 16], [0, 1], [1, 2, 2])
   \<and> map_option (\<lambda>s. (map hr_system_id (employees s), aborted s, map page_param (issued s)))
      (select_run (scroll_run other_first_page (Resolved stale_page)) (mounted_select False)) =
     Some ([21, 22, 23, 24, 25, 26, 27, 28, 9, 10, 11, 12, 13, 14, 15, 16], [0, 1], [1, 2, 2])"
  by (simp add: scroll_run_def mounted_select_def onChange_def render_def debounce_effect_def
        timeout_callback_def fetchEmployees_def abort_current_def handleScroll_def Let_def
        settle_def delivered_def promise_chain_def first_page_def other_first_page_def
        second_page_def stale_page_def staff_page_def staff_id)

end
